theory Spec2Isabelle
  imports Main
begin

section \<open>Data model of the softphone core\<close>

text \<open>
  The softphone keeps its mutable state in module-level refs (\<open>webrtcRefs\<close>), in a
  store (\<open>useWebRTCPhoneStore\<close>) and in one sessionStorage item. The embedding
  collects all three in one record, \<open>phone\<close>, whose parts are records of their own,
  and every hook becomes a function on \<open>phone\<close> or on the part it touches. The
  channel hook \<open>useCallChannel\<close> has its own state, \<open>channel\<close>. Values the code
  draws from its environment (the random transaction id, the clock, the outcome of a
  native call) are arguments. An asynchronous function is modelled run to its end,
  with nothing interleaved at its \<open>await\<close>s, except for the request/response
  layer, which is followed event by event.
\<close>

subsection \<open>Values exchanged with the gateway\<close>

text \<open>A session description as the code passes it around: \<open>{type, sdp?}\<close>.\<close>

record jsep =
  jsep_type :: string
  sdp :: "string option"

text \<open>
  A remote trickle candidate, \<open>Record<string, unknown> | null\<close> in the source; the
  fields are those the code reads. \<open>null\<close> is \<open>None\<close> of \<open>ice_candidate option\<close>.
\<close>

record ice_candidate =
  candidate :: string
  sdpMid :: "string option"
  sdpMLineIndex :: "nat option"
  completed :: bool

text \<open>The argument of the native \<open>pc.addIceCandidate\<close>.\<close>

type_synonym ice_init = "string \<times> string option \<times> nat option"

text \<open>\<open>PersistedCallState\<close> of types.ts; \<open>startedAt\<close> is a millisecond timestamp.\<close>

record PersistedCallState =
  callId :: string
  endpointId :: string
  endpointName :: "string option"
  appName :: "string option"
  startedAt :: int
  wsToken :: "string option"
  telproDomain :: "string option"

text \<open>The SIP request bodies and gateway requests that \<open>sendMessage\<close> is called with.\<close>

datatype sip_request =
    Register string string
  | Call string "string option"
  | Hangup
  | DtmfInfo string

datatype janus_request =
    Create
  | Attach string
  | Message sip_request "jsep option"

text \<open>The frame \<open>sendMessage\<close> serialises: the request with the injected fields.\<close>

record out_frame =
  request :: janus_request
  out_transaction :: string
  out_session_id :: "nat option"
  out_handle_id :: "nat option"

text \<open>
  An inbound frame. \<open>error\<close> is the gateway's error object, of which the code reads
  \<open>reason\<close>; \<open>plugindata_data\<close> is \<open>plugindata.data\<close>, of which
  \<open>handleSipEvent\<close> reads \<open>result.event\<close>, \<open>result.reason\<close> and \<open>sip\<close>.
\<close>

record janus_error =
  reason :: "string option"

record sip_data =
  result_event :: "string option"
  result_reason :: "string option"
  sip :: "string option"

record in_frame =
  transaction :: "string option"
  janus :: string
  error :: "janus_error option"
  plugindata_data :: "sip_data option"
  in_jsep :: "jsep option"
  in_candidate :: "ice_candidate option"

subsection \<open>Host objects\<close>

datatype ready_state = CONNECTING | OPEN | CLOSING | CLOSED

text \<open>The signaling socket: its state and the frames written to it, oldest first.\<close>

record socket =
  readyState :: ready_state
  sent :: "out_frame list"

text \<open>
  The native peer connection, as far as the code observes it: the remote description
  applied last, every argument \<open>addIceCandidate\<close> was invoked with, oldest first,
  and those of them the native call accepted.
\<close>

record peer_connection =
  remoteDescription :: "jsep option"
  addIceCandidate_calls :: "ice_init list"
  remote_candidates :: "ice_init list"

text \<open>A media stream is its tracks; an audio element is its \<open>srcObject\<close>.\<close>

type_synonym media_stream = "string list"

type_synonym audio_element = "media_stream option"

text \<open>
  How a promise returned by \<open>sendMessage\<close> was settled: \<open>resolve(response)\<close> or
  \<open>reject(new Error(text))\<close>.
\<close>

datatype outcome = Fulfilled in_frame | Rejected string

subsection \<open>The state\<close>

text \<open>
  The refs that carry the request/response layer. \<open>transactionsRef\<close> maps a
  transaction id to its resolver; a resolver is the closure of one \<open>sendMessage\<close>
  call and is identified by the number of the promise that call returned.
  \<open>timeouts\<close> holds the pending timers of \<open>setTimeout\<close> (promise number to
  transaction id and delay in ms) and \<open>settlements\<close> lists every \<open>resolve\<close> and
  \<open>reject\<close> call made, oldest first. \<open>keepAliveRef\<close> is the interval timer of the
  keepalive, when one runs.
\<close>

record transport =
  wsRef :: "socket option"
  sessionIdRef :: "nat option"
  handleIdRef :: "nat option"
  keepAliveRef :: "nat option"
  initializingRef :: bool
  initializedRef :: bool
  transactionsRef :: "string \<rightharpoonup> nat"
  timeouts :: "nat \<rightharpoonup> string \<times> nat"
  settlements :: "(nat \<times> outcome) list"
  next_promise :: nat

text \<open>
  The refs that carry the media session. \<open>closed_pcs\<close> counts \<open>pc.close()\<close> calls
  and \<open>stopped_tracks\<close> lists the tracks \<open>track.stop()\<close> was called on.
\<close>

record media =
  pcRef :: "peer_connection option"
  localStreamRef :: "media_stream option"
  remoteAudioRef :: "audio_element option"
  localAudioRef :: "audio_element option"
  pendingCandidatesRef :: "ice_candidate option list"
  remoteDescriptionSetRef :: bool
  closed_pcs :: nat
  stopped_tracks :: "string list"

text \<open>The three objects of the store, with the fields of webrtcPhoneStore.ts.\<close>

record ui_state =
  dialog_open :: bool
  dialpadOpen :: bool
  chatOpen :: bool
  audioBlocked :: bool
  selectedText :: string

record connection_state =
  connected :: bool
  registered :: bool
  calling :: bool
  inCall :: bool
  initialized :: bool
  reconnecting :: bool
  status :: string

record call_data =
  cd_endpointId :: string
  cd_endpointName :: string
  cd_appName :: string
  currentCallId :: "string option"
  currentWsToken :: "string option"
  cd_telproDomain :: "string option"
  dtmfDigits :: string

text \<open>
  The whole state. \<open>storage\<close> is the sessionStorage item under
  \<open>CALL_STATE_STORAGE_KEY\<close>; \<open>onHangupRef\<close> says whether the component has
  registered its hangup callback.
\<close>

record phone =
  transport :: transport
  media :: media
  ui :: ui_state
  connection :: connection_state
  callData :: call_data
  pendingReconnectRef :: "PersistedCallState option"
  onHangupRef :: bool
  storage :: "string option"

section \<open>Teardown: useCleanupCall\<close>

text \<open>
  \<open>setAudioBlocked\<close> of the store: the state object is kept when the value is the
  same, replaced otherwise.
\<close>

definition setAudioBlocked :: "bool \<Rightarrow> phone \<Rightarrow> phone" where
  "setAudioBlocked b s =
    (if audioBlocked (ui s) = b then s else s\<lparr>ui := (ui s)\<lparr>audioBlocked := b\<rparr>\<rparr>)"

text \<open>The steps of the routine, in the order of the source.\<close>

definition close_pc :: "media \<Rightarrow> media" where
  "close_pc m =
    (case pcRef m of
       Some pc \<Rightarrow> m\<lparr>closed_pcs := closed_pcs m + 1, pcRef := None\<rparr>
     | None \<Rightarrow> m)"

definition stop_local_stream :: "media \<Rightarrow> media" where
  "stop_local_stream m =
    (case localStreamRef m of
       Some stream \<Rightarrow> m\<lparr>stopped_tracks := stopped_tracks m @ stream, localStreamRef := None\<rparr>
     | None \<Rightarrow> m)"

definition detach_remote_audio :: "media \<Rightarrow> media" where
  "detach_remote_audio m =
    (case remoteAudioRef m of
       Some el \<Rightarrow> m\<lparr>remoteAudioRef := Some None\<rparr>
     | None \<Rightarrow> m)"

definition detach_local_audio :: "media \<Rightarrow> media" where
  "detach_local_audio m =
    (case localAudioRef m of
       Some el \<Rightarrow> m\<lparr>localAudioRef := Some None\<rparr>
     | None \<Rightarrow> m)"

definition reset_ice_queue :: "media \<Rightarrow> media" where
  "reset_ice_queue m = m\<lparr>pendingCandidatesRef := [], remoteDescriptionSetRef := False\<rparr>"

definition cleanup_media :: "media \<Rightarrow> media" where
  "cleanup_media m =
    reset_ice_queue (detach_local_audio (detach_remote_audio (stop_local_stream (close_pc m))))"

definition cleanupCall :: "phone \<Rightarrow> phone" where
  "cleanupCall s = setAudioBlocked False (s\<lparr>media := cleanup_media (media s)\<rparr>)"

section \<open>The request/response layer: useSendMessage and the resolver it registers\<close>

text \<open>
  \<open>if (sessionIdRef.current) message.session_id = ...\<close>: a number is injected when it
  is truthy, that is neither null nor zero.
\<close>

definition truthy_id :: "nat option \<Rightarrow> nat option" where
  "truthy_id n = (case n of Some k \<Rightarrow> (if k = 0 then None else Some k) | None \<Rightarrow> None)"

text \<open>\<open>reject(new Error(text))\<close> and \<open>resolve(response)\<close> on promise \<open>p\<close>.\<close>

definition settle :: "nat \<Rightarrow> outcome \<Rightarrow> transport \<Rightarrow> transport" where
  "settle p out t = t\<lparr>settlements := settlements t @ [(p, out)]\<rparr>"

text \<open>
  \<open>sendMessage msg\<close>, with the value \<open>randomString(12)\<close> returned as \<open>txn\<close>. The
  result is the new state and the number of the promise returned to the caller.
\<close>

definition sendMessage :: "janus_request \<Rightarrow> string \<Rightarrow> transport \<Rightarrow> transport \<times> nat" where
  "sendMessage msg txn t =
    (let p = next_promise t;
         t0 = t\<lparr>next_promise := p + 1\<rparr>
     in case wsRef t of
          None \<Rightarrow> (settle p (Rejected ''WebSocket not connected'') t0, p)
        | Some ws \<Rightarrow>
            if readyState ws \<noteq> OPEN
            then (settle p (Rejected ''WebSocket not connected'') t0, p)
            else
              (let message = \<lparr>request = msg, out_transaction = txn,
                              out_session_id = truthy_id (sessionIdRef t),
                              out_handle_id = truthy_id (handleIdRef t)\<rparr>;
                   t1 = t0\<lparr>timeouts := (timeouts t0)(p \<mapsto> (txn, 10000))\<rparr>;
                   t2 = t1\<lparr>transactionsRef := (transactionsRef t1)(txn \<mapsto> p)\<rparr>
               in (t2\<lparr>wsRef := Some (ws\<lparr>sent := sent ws @ [message]\<rparr>)\<rparr>, p)))"

text \<open>
  The timer callback of promise \<open>p\<close>. A timer that was cleared, or that has fired,
  is not in \<open>timeouts\<close> and runs nothing.
\<close>

definition fire_timeout :: "nat \<Rightarrow> transport \<Rightarrow> transport" where
  "fire_timeout p t =
    (case timeouts t p of
       None \<Rightarrow> t
     | Some (txn, delay) \<Rightarrow>
         settle p (Rejected ''Transaction timeout'')
           (t\<lparr>timeouts := (timeouts t)(p := None),
              transactionsRef := (transactionsRef t)(txn := None)\<rparr>))"

text \<open>
  \<open>String(err?.reason || err || 'Janus error')\<close>: the reason when it is a non-empty
  string, the text of the error object when there is one, the fixed text otherwise.
\<close>

definition error_text :: "janus_error option \<Rightarrow> string" where
  "error_text err =
    (case err of
       None \<Rightarrow> ''Janus error''
     | Some e \<Rightarrow>
         (case reason e of
            Some r \<Rightarrow> (if r \<noteq> [] then r else ''[object Object]'')
          | None \<Rightarrow> ''[object Object]''))"

definition response_outcome :: "in_frame \<Rightarrow> outcome" where
  "response_outcome response =
    (if janus response = ''error'' then Rejected (error_text (error response))
     else Fulfilled response)"

text \<open>
  The resolver registered under \<open>txn\<close> for promise \<open>p\<close>: it clears the timer, deletes
  its registration and settles the promise.
\<close>

definition resolver :: "nat \<Rightarrow> string \<Rightarrow> in_frame \<Rightarrow> transport \<Rightarrow> transport" where
  "resolver p txn response t =
    settle p (response_outcome response)
      (t\<lparr>timeouts := (timeouts t)(p := None),
         transactionsRef := (transactionsRef t)(txn := None)\<rparr>)"

text \<open>
  The test at the head of \<open>useHandleMessage\<close>:
  \<open>transaction && transactionsRef.current.has(transaction)\<close>, giving the transaction
  id and the registered resolver.
\<close>

definition matching_resolver :: "in_frame \<Rightarrow> transport \<Rightarrow> (string \<times> nat) option" where
  "matching_resolver msg t =
    (case transaction msg of
       None \<Rightarrow> None
     | Some x \<Rightarrow>
         (if x = [] then None
          else (case transactionsRef t x of None \<Rightarrow> None | Some p \<Rightarrow> Some (x, p))))"

section \<open>The store's setters and the persisted record\<close>

text \<open>
  Each setter of webrtcPhoneStore.ts keeps the state object when the value is the one
  already stored and replaces the field otherwise.
\<close>

definition setStatus :: "string \<Rightarrow> phone \<Rightarrow> phone" where
  "setStatus v s =
    (if status (connection s) = v then s else s\<lparr>connection := (connection s)\<lparr>status := v\<rparr>\<rparr>)"

definition setConnected :: "bool \<Rightarrow> phone \<Rightarrow> phone" where
  "setConnected v s =
    (if connected (connection s) = v then s
     else s\<lparr>connection := (connection s)\<lparr>connected := v\<rparr>\<rparr>)"

definition setRegistered :: "bool \<Rightarrow> phone \<Rightarrow> phone" where
  "setRegistered v s =
    (if registered (connection s) = v then s
     else s\<lparr>connection := (connection s)\<lparr>registered := v\<rparr>\<rparr>)"

definition setCalling :: "bool \<Rightarrow> phone \<Rightarrow> phone" where
  "setCalling v s =
    (if calling (connection s) = v then s else s\<lparr>connection := (connection s)\<lparr>calling := v\<rparr>\<rparr>)"

definition setInCall :: "bool \<Rightarrow> phone \<Rightarrow> phone" where
  "setInCall v s =
    (if inCall (connection s) = v then s else s\<lparr>connection := (connection s)\<lparr>inCall := v\<rparr>\<rparr>)"

definition setReconnecting :: "bool \<Rightarrow> phone \<Rightarrow> phone" where
  "setReconnecting v s =
    (if reconnecting (connection s) = v then s
     else s\<lparr>connection := (connection s)\<lparr>reconnecting := v\<rparr>\<rparr>)"

definition setChatOpen :: "bool \<Rightarrow> phone \<Rightarrow> phone" where
  "setChatOpen v s = (if chatOpen (ui s) = v then s else s\<lparr>ui := (ui s)\<lparr>chatOpen := v\<rparr>\<rparr>)"

definition setEndpointId :: "string \<Rightarrow> phone \<Rightarrow> phone" where
  "setEndpointId v s =
    (if cd_endpointId (callData s) = v then s
     else s\<lparr>callData := (callData s)\<lparr>cd_endpointId := v\<rparr>\<rparr>)"

definition setEndpointName :: "string \<Rightarrow> phone \<Rightarrow> phone" where
  "setEndpointName v s =
    (if cd_endpointName (callData s) = v then s
     else s\<lparr>callData := (callData s)\<lparr>cd_endpointName := v\<rparr>\<rparr>)"

definition setAppName :: "string \<Rightarrow> phone \<Rightarrow> phone" where
  "setAppName v s =
    (if cd_appName (callData s) = v then s
     else s\<lparr>callData := (callData s)\<lparr>cd_appName := v\<rparr>\<rparr>)"

definition setCurrentCallId :: "string option \<Rightarrow> phone \<Rightarrow> phone" where
  "setCurrentCallId v s =
    (if currentCallId (callData s) = v then s
     else s\<lparr>callData := (callData s)\<lparr>currentCallId := v\<rparr>\<rparr>)"

definition setCurrentWsToken :: "string option \<Rightarrow> phone \<Rightarrow> phone" where
  "setCurrentWsToken v s =
    (if currentWsToken (callData s) = v then s
     else s\<lparr>callData := (callData s)\<lparr>currentWsToken := v\<rparr>\<rparr>)"

definition clearDtmfDigits :: "phone \<Rightarrow> phone" where
  "clearDtmfDigits s =
    (if dtmfDigits (callData s) = [] then s
     else s\<lparr>callData := (callData s)\<lparr>dtmfDigits := []\<rparr>\<rparr>)"

text \<open>\<open>clearCallState\<close>: \<open>sessionStorage.removeItem(CALL_STATE_STORAGE_KEY)\<close>.\<close>

definition clearCallState :: "phone \<Rightarrow> phone" where
  "clearCallState s = s\<lparr>storage := None\<rparr>"

section \<open>Remote ICE candidates and the remote description\<close>

text \<open>
  \<open>useAddIceCandidate\<close>. \<open>accepts\<close> says which arguments the native
  \<open>pc.addIceCandidate\<close> accepts; a rejection is caught and logged inside the function.
\<close>

definition ice_init_of :: "ice_candidate \<Rightarrow> ice_init" where
  "ice_init_of c = (candidate c, sdpMid c, sdpMLineIndex c)"

definition addIceCandidate :: "(ice_init \<Rightarrow> bool) \<Rightarrow> ice_candidate option \<Rightarrow> media \<Rightarrow> media" where
  "addIceCandidate accepts c m =
    (case pcRef m of
       None \<Rightarrow> m
     | Some pc \<Rightarrow>
         (case c of
            None \<Rightarrow> m
          | Some cand \<Rightarrow>
              if completed cand then m
              else m\<lparr>pcRef := Some (pc\<lparr>
                     addIceCandidate_calls := addIceCandidate_calls pc @ [ice_init_of cand],
                     remote_candidates :=
                       (if accepts (ice_init_of cand)
                        then remote_candidates pc @ [ice_init_of cand]
                        else remote_candidates pc)\<rparr>)\<rparr>))"

text \<open>\<open>useHandleRemoteTrickle\<close>.\<close>

definition handleRemoteTrickle ::
  "(ice_init \<Rightarrow> bool) \<Rightarrow> ice_candidate option \<Rightarrow> media \<Rightarrow> media" where
  "handleRemoteTrickle accepts c m =
    (if \<not> remoteDescriptionSetRef m
     then m\<lparr>pendingCandidatesRef := pendingCandidatesRef m @ [c]\<rparr>
     else addIceCandidate accepts c m)"

text \<open>
  \<open>useHandleRemoteJsep\<close> is an async function: it runs up to its first \<open>await\<close>,
  and each later part runs when the awaited promise has settled; between two parts
  other handlers run. \<open>jsep_task\<close> is where a call of it stands:
  \<^item> \<open>AwaitingRemoteDescription j\<close>: \<open>pc.setRemoteDescription\<close> was called with \<open>j\<close>
    and is awaited;
  \<^item> \<open>Flushing cs\<close>: inside the loop \<open>for (const candidate of pending)\<close>, the
    \<open>addIceCandidate\<close> of the previous entry is awaited, and \<open>cs\<close> are the entries
    of \<open>pending\<close> still to come;
  \<^item> \<open>Finished\<close>: the function has returned.
\<close>

datatype jsep_task =
    AwaitingRemoteDescription jsep
  | Flushing "ice_candidate option list"
  | Finished

text \<open>The part up to the first \<open>await\<close>: \<open>if (!pc) return\<close>, then the native call.\<close>

definition handleRemoteJsep_start :: "jsep \<Rightarrow> media \<Rightarrow> jsep_task" where
  "handleRemoteJsep_start j m =
    (case pcRef m of
       None \<Rightarrow> Finished
     | Some pc \<Rightarrow> AwaitingRemoteDescription j)"

text \<open>
  The part from one \<open>await\<close> to the next. \<open>srd_ok\<close> says which descriptions the
  native \<open>pc.setRemoteDescription\<close> accepts; a rejection is caught and logged, and
  nothing after it in the \<open>try\<close> block runs. After the description is set the flag
  is raised, the queue is taken and emptied, and the loop calls \<open>addIceCandidate\<close>
  for its first entry; each later part calls it for the next entry. The peer
  connection is the one the call started with: a teardown while the call is
  suspended is not modelled.
\<close>

definition handleRemoteJsep_resume ::
  "(jsep \<Rightarrow> bool) \<Rightarrow> (ice_init \<Rightarrow> bool) \<Rightarrow> jsep_task \<Rightarrow> media \<Rightarrow> media \<times> jsep_task" where
  "handleRemoteJsep_resume srd_ok accepts task m =
    (case task of
       AwaitingRemoteDescription j \<Rightarrow>
         if \<not> srd_ok j then (m, Finished)
         else
           (let m1 = m\<lparr>pcRef := map_option (\<lambda>pc. pc\<lparr>remoteDescription := Some j\<rparr>) (pcRef m),
                       remoteDescriptionSetRef := True\<rparr>
            in case pendingCandidatesRef m1 of
                 [] \<Rightarrow> (m1, Finished)
               | c # cs \<Rightarrow> (addIceCandidate accepts c (m1\<lparr>pendingCandidatesRef := []\<rparr>), Flushing cs))
     | Flushing [] \<Rightarrow> (m, Finished)
     | Flushing (c # cs) \<Rightarrow> (addIceCandidate accepts c m, Flushing cs)
     | Finished \<Rightarrow> (m, Finished))"

section \<open>Inbound frames: useHandleSipEvent and useHandleMessage\<close>

text \<open>
  The handlers start asynchronous functions without awaiting them. The model returns,
  beside the new state, the list of those started, in order.
\<close>

datatype async_call =
    HangupCallback
  | ReconnectCall PersistedCallState
  | HandleRemoteJsep jsep

text \<open>\<open>a || b\<close> on strings that may be undefined: \<open>a\<close> when it is a non-empty string.\<close>

definition or_else :: "string option \<Rightarrow> string \<Rightarrow> string" where
  "or_else a b = (case a of Some v \<Rightarrow> (if v \<noteq> [] then v else b) | None \<Rightarrow> b)"

text \<open>
  \<open>result?.event || (data.sip !== 'event' ? data.sip : undefined)\<close>.
\<close>

definition sip_event_name :: "sip_data \<Rightarrow> string option" where
  "sip_event_name d =
    (let fallback = (if sip d \<noteq> Some ''event'' then sip d else None)
     in case result_event d of
          Some e \<Rightarrow> (if e \<noteq> [] then Some e else fallback)
        | None \<Rightarrow> fallback)"

text \<open>\<open>webrtcRefs.onHangupRef.current?.()\<close>.\<close>

definition invoke_onHangup :: "phone \<Rightarrow> async_call list" where
  "invoke_onHangup s = (if onHangupRef s then [HangupCallback] else [])"

definition handleSipEvent :: "sip_data \<Rightarrow> jsep option \<Rightarrow> phone \<Rightarrow> phone \<times> async_call list" where
  "handleSipEvent d j s =
    (case sip_event_name d of
       None \<Rightarrow> (s, [])
     | Some ev \<Rightarrow>
         if ev = ''registering'' then (setStatus ''Registering...'' s, [])
         else if ev = ''registered'' then
           (let s1 = setStatus ''Connected'' (setConnected True (setRegistered True s))
            in (s1, case pendingReconnectRef s1 of
                      Some reconnectState \<Rightarrow> [ReconnectCall reconnectState]
                    | None \<Rightarrow> []))
         else if ev = ''registration_failed'' then
           (let s1 = setStatus (''Registration failed: '' @ or_else (result_reason d) ''Unknown'')
                       (setRegistered False s)
            in (clearCallState (s1\<lparr>pendingReconnectRef := None\<rparr>), []))
         else if ev = ''calling'' then (setStatus ''Calling...'' (setCalling True s), [])
         else if ev = ''ringing'' then (setStatus ''Ringing...'' s, [])
         else if ev = ''progress'' then
           (setStatus ''Connecting...'' s,
            case j of Some jj \<Rightarrow> [HandleRemoteJsep jj] | None \<Rightarrow> [])
         else if ev = ''accepted'' then
           (setStatus ''In Call'' (setCalling False (setInCall True s)),
            case j of Some jj \<Rightarrow> [HandleRemoteJsep jj] | None \<Rightarrow> [])
         else if ev = ''hangup'' then (s, invoke_onHangup s)
         else if ev = ''declining'' \<or> ev = ''missed'' then (s, invoke_onHangup s)
         else (s, []))"

text \<open>
  \<open>useHandleMessage\<close>: a frame whose transaction id has a registered resolver goes to
  that resolver and nowhere else; any other frame is dispatched on \<open>janus\<close>.
\<close>

definition handleMessage ::
  "(ice_init \<Rightarrow> bool) \<Rightarrow> in_frame \<Rightarrow> phone \<Rightarrow> phone \<times> async_call list" where
  "handleMessage accepts msg s =
    (case matching_resolver msg (transport s) of
       Some (x, p) \<Rightarrow> (s\<lparr>transport := resolver p x msg (transport s)\<rparr>, [])
     | None \<Rightarrow>
         if janus msg = ''event'' then
           (case plugindata_data msg of
              Some d \<Rightarrow> handleSipEvent d (in_jsep msg) s
            | None \<Rightarrow> (s, []))
         else if janus msg = ''trickle'' then
           (s\<lparr>media := handleRemoteTrickle accepts (in_candidate msg) (media s)\<rparr>, [])
         else if janus msg = ''webrtcup'' then (s, [])
         else if janus msg = ''hangup'' then (s, invoke_onHangup s)
         else if janus msg = ''detached'' then
           (s\<lparr>transport := (transport s)\<lparr>handleIdRef := None\<rparr>\<rparr>, [])
         else (s, []))"

text \<open>\<open>useCleanupJanus\<close>.\<close>

definition cleanupJanus :: "phone \<Rightarrow> phone" where
  "cleanupJanus s =
    (let s1 = cleanupCall s;
         t = transport s1;
         t1 = t\<lparr>keepAliveRef := None, wsRef := None, sessionIdRef := None,
                handleIdRef := None, transactionsRef := Map.empty,
                initializingRef := False, initializedRef := False\<rparr>
     in setCalling False (setInCall False (setRegistered False
          (setConnected False (s1\<lparr>transport := t1\<rparr>)))))"

section \<open>Traces of the request/response layer\<close>

text \<open>
  Everything the code does to the refs of the request/response layer, as events:
  a call of \<open>sendMessage\<close> with the transaction id it generates, an inbound frame, a
  timer of \<open>setTimeout\<close> that fires, \<open>cleanupJanus\<close>, and what \<open>initJanus\<close> and the
  network do to the socket and to the session and handle ids. \<open>transactionsRef\<close> is
  written by \<open>useSendMessage\<close>, by the resolvers it registers and by
  \<open>useCleanupJanus\<close> only. The asynchronous functions that a frame starts reach
  these refs through \<open>sendMessage\<close>, that is through later events of the trace.
\<close>

datatype event =
    Send janus_request string
  | Frame in_frame
  | TimerFires nat
  | Teardown
  | SocketChange "socket option"
  | SessionCreated nat
  | HandleAttached nat

fun step :: "(ice_init \<Rightarrow> bool) \<Rightarrow> event \<Rightarrow> phone \<Rightarrow> phone" where
  "step accepts (Send msg txn) s = s\<lparr>transport := fst (sendMessage msg txn (transport s))\<rparr>"
| "step accepts (Frame msg) s = fst (handleMessage accepts msg s)"
| "step accepts (TimerFires p) s = s\<lparr>transport := fire_timeout p (transport s)\<rparr>"
| "step accepts Teardown s = cleanupJanus s"
| "step accepts (SocketChange w) s = s\<lparr>transport := (transport s)\<lparr>wsRef := w\<rparr>\<rparr>"
| "step accepts (SessionCreated n) s = s\<lparr>transport := (transport s)\<lparr>sessionIdRef := Some n\<rparr>\<rparr>"
| "step accepts (HandleAttached n) s = s\<lparr>transport := (transport s)\<lparr>handleIdRef := Some n\<rparr>\<rparr>"

fun run :: "(ice_init \<Rightarrow> bool) \<Rightarrow> event list \<Rightarrow> phone \<Rightarrow> phone" where
  "run accepts [] s = s"
| "run accepts (e # es) s = run accepts es (step accepts e s)"





text \<open>The \<open>resolve\<close> and \<open>reject\<close> calls made on promise \<open>p\<close>, oldest first.\<close>

definition settlements_of :: "nat \<Rightarrow> transport \<Rightarrow> outcome list" where
  "settlements_of p t = map snd (filter (\<lambda>e. fst e = p) (settlements t))"

definition socket_open :: "transport \<Rightarrow> bool" where
  "socket_open t = (case wsRef t of Some ws \<Rightarrow> readyState ws = OPEN | None \<Rightarrow> False)"

text \<open>The state the module starts in: the initial values of the refs and of the store.\<close>

definition initial_phone :: phone where
  "initial_phone =
    \<lparr>transport = \<lparr>wsRef = None, sessionIdRef = None, handleIdRef = None, keepAliveRef = None,
                   initializingRef = False, initializedRef = False,
                   transactionsRef = Map.empty, timeouts = Map.empty, settlements = [],
                   next_promise = 0\<rparr>,
      media = \<lparr>pcRef = None, localStreamRef = None, remoteAudioRef = None,
               localAudioRef = None, pendingCandidatesRef = [],
               remoteDescriptionSetRef = False, closed_pcs = 0, stopped_tracks = []\<rparr>,
      ui = \<lparr>dialog_open = False, dialpadOpen = False, chatOpen = False,
            audioBlocked = False, selectedText = []\<rparr>,
      connection = \<lparr>connected = False, registered = False, calling = False,
                    inCall = False, initialized = False, reconnecting = False,
                    status = ''Disconnected''\<rparr>,
      callData = \<lparr>cd_endpointId = [], cd_endpointName = [], cd_appName = [],
                  currentCallId = None, currentWsToken = None, cd_telproDomain = None,
                  dtmfDigits = []\<rparr>,
      pendingReconnectRef = None, onHangupRef = False, storage = None\<rparr>"




text \<open>
  Invariants of the layer: a registered resolver has its timer pending under the same
  transaction id; a pending timer belongs to a promise already created and carries an
  id from \<open>G\<close>, the ids generated so far; a settled promise has no pending timer.
\<close>

definition layer_inv :: "string set \<Rightarrow> transport \<Rightarrow> bool" where
  "layer_inv G t \<longleftrightarrow>
    (\<forall>y q. transactionsRef t y = Some q \<longrightarrow> timeouts t q = Some (y, 10000)) \<and>
    (\<forall>q y d. timeouts t q = Some (y, d) \<longrightarrow> q < next_promise t \<and> y \<in> G) \<and>
    (\<forall>q out. (q, out) \<in> set (settlements t) \<longrightarrow> q < next_promise t \<and> timeouts t q = None)"



section \<open>Reading the candidate queue\<close>

text \<open>
  The arguments the native \<open>addIceCandidate\<close> is to be invoked with for a list of
  remote candidates: one per entry, in order, with \<open>null\<close> and \<open>completed\<close> entries
  left out.
\<close>

fun native_args :: "ice_candidate option list \<Rightarrow> ice_init list" where
  "native_args [] = []"
| "native_args (None # cs) = native_args cs"
| "native_args (Some c # cs) =
     (if completed c then native_args cs else ice_init_of c # native_args cs)"

text \<open>Remote candidates delivered one after the other, each through \<open>handleRemoteTrickle\<close>.\<close>

fun deliver_candidates ::
  "(ice_init \<Rightarrow> bool) \<Rightarrow> ice_candidate option list \<Rightarrow> media \<Rightarrow> media" where
  "deliver_candidates accepts [] m = m"
| "deliver_candidates accepts (c # cs) m =
     deliver_candidates accepts cs (handleRemoteTrickle accepts c m)"

text \<open>
  What happens while one call of \<open>handleRemoteJsep\<close> is under way: a \<open>trickle\<close> frame
  arrives and \<open>handleRemoteTrickle\<close> runs for its candidate, or the call resumes
  after its \<open>await\<close>. A schedule is a list of these, in the order they happen.
\<close>

datatype ice_event = Arrives "ice_candidate option" | Resumes

fun ice_step ::
  "(jsep \<Rightarrow> bool) \<Rightarrow> (ice_init \<Rightarrow> bool) \<Rightarrow> ice_event \<Rightarrow> media \<times> jsep_task \<Rightarrow> media \<times> jsep_task" where
  "ice_step srd_ok accepts (Arrives c) (m, task) = (handleRemoteTrickle accepts c m, task)"
| "ice_step srd_ok accepts Resumes (m, task) = handleRemoteJsep_resume srd_ok accepts task m"

fun ice_run ::
  "(jsep \<Rightarrow> bool) \<Rightarrow> (ice_init \<Rightarrow> bool) \<Rightarrow> ice_event list \<Rightarrow> media \<times> jsep_task \<Rightarrow> media \<times> jsep_task" where
  "ice_run srd_ok accepts [] st = st"
| "ice_run srd_ok accepts (e # es) st = ice_run srd_ok accepts es (ice_step srd_ok accepts e st)"

text \<open>The candidates that arrive in a schedule, in order, and the number of resumptions.\<close>

fun arrived :: "ice_event list \<Rightarrow> ice_candidate option list" where
  "arrived [] = []"
| "arrived (Arrives c # es) = c # arrived es"
| "arrived (Resumes # es) = arrived es"

fun resumes :: "ice_event list \<Rightarrow> nat" where
  "resumes [] = 0"
| "resumes (Arrives c # es) = resumes es"
| "resumes (Resumes # es) = Suc (resumes es)"

section \<open>The persisted record: loadCallState and restoreFromPersistedState\<close>

text \<open>\<open>v || null\<close> on a string that may be undefined, and the test \<open>!v\<close>.\<close>

definition or_null :: "string option \<Rightarrow> string option" where
  "or_null a = (case a of Some v \<Rightarrow> (if v \<noteq> [] then Some v else None) | None \<Rightarrow> None)"

definition truthy :: "string option \<Rightarrow> bool" where
  "truthy a = (case a of Some v \<Rightarrow> v \<noteq> [] | None \<Rightarrow> False)"

text \<open>
  \<open>loadCallState\<close>. \<open>parse\<close> stands for \<open>JSON.parse(stored) as PersistedCallState\<close>
  and gives \<open>None\<close> where \<open>JSON.parse\<close> throws; \<open>now\<close> is \<open>Date.now()\<close>. The
  exception is caught and \<open>null\<close> returned, the item left in place.
\<close>

definition loadCallState ::
  "(string \<Rightarrow> PersistedCallState option) \<Rightarrow> int \<Rightarrow> phone \<Rightarrow> phone \<times> PersistedCallState option"
where
  "loadCallState parse now s =
    (case storage s of
       None \<Rightarrow> (s, None)
     | Some stored \<Rightarrow>
         if stored = [] then (s, None)
         else
           (case parse stored of
              None \<Rightarrow> (s, None)
            | Some state \<Rightarrow>
                if now - startedAt state > 20 * 1000 then (clearCallState s, None)
                else (s, Some state)))"

text \<open>The first \<open>set\<close> of \<open>restoreFromPersistedState\<close>.\<close>

definition restore_store :: "PersistedCallState \<Rightarrow> phone \<Rightarrow> phone" where
  "restore_store storedState s =
    (let newReconnecting = True;
         newInitialized = truthy (telproDomain storedState);
         newEndpointId = endpointId storedState;
         newEndpointName = or_else (endpointName storedState) [];
         newAppName = or_else (appName storedState) [];
         newCallId = or_null (Some (callId storedState));
         newWsToken = or_null (wsToken storedState);
         newTelproDomain = or_null (telproDomain storedState);
         connectionChanged =
           (reconnecting (connection s) \<noteq> newReconnecting \<or>
            initialized (connection s) \<noteq> newInitialized);
         callDataChanged =
           (cd_endpointId (callData s) \<noteq> newEndpointId \<or>
            cd_endpointName (callData s) \<noteq> newEndpointName \<or>
            cd_appName (callData s) \<noteq> newAppName \<or>
            currentCallId (callData s) \<noteq> newCallId \<or>
            currentWsToken (callData s) \<noteq> newWsToken \<or>
            cd_telproDomain (callData s) \<noteq> newTelproDomain)
     in if \<not> connectionChanged \<and> \<not> callDataChanged then s
        else s\<lparr>connection :=
                 (if connectionChanged
                  then (connection s)\<lparr>reconnecting := newReconnecting,
                                        initialized := newInitialized\<rparr>
                  else connection s),
               callData :=
                 (if callDataChanged
                  then (callData s)\<lparr>cd_endpointId := newEndpointId,
                                      cd_endpointName := newEndpointName,
                                      cd_appName := newAppName,
                                      currentCallId := newCallId,
                                      currentWsToken := newWsToken,
                                      cd_telproDomain := newTelproDomain\<rparr>
                  else callData s)\<rparr>)"

definition restoreFromPersistedState ::
  "(string \<Rightarrow> PersistedCallState option) \<Rightarrow> int \<Rightarrow> phone \<Rightarrow> phone \<times> PersistedCallState option"
where
  "restoreFromPersistedState parse now s =
    (case loadCallState parse now s of
       (s0, None) \<Rightarrow> (s0, None)
     | (s0, Some storedState) \<Rightarrow>
         (let s1 = restore_store storedState s0
          in if \<not> truthy (telproDomain storedState)
             then (setReconnecting False (clearCallState s1), None)
             else (s1, Some storedState)))"

section \<open>Hangup and reconnection\<close>

text \<open>
  What the gateway does with a request that was sent: it replies, or it never does and
  the timer of the request fires.
\<close>

datatype gateway_answer = Reply in_frame | NoReply

text \<open>
  \<open>await sendMessage(msg)\<close> with nothing interleaved: the call, then the event that
  settles its promise. The result is the state and how the promise was settled.
\<close>

definition await_sendMessage ::
  "janus_request \<Rightarrow> string \<Rightarrow> gateway_answer \<Rightarrow> phone \<Rightarrow> phone \<times> outcome" where
  "await_sendMessage msg txn answer s =
    (let sp = sendMessage msg txn (transport s);
         t1 = fst sp;
         p = snd sp
     in if \<not> socket_open (transport s)
        then (s\<lparr>transport := t1\<rparr>, Rejected ''WebSocket not connected'')
        else
          (case answer of
             Reply r \<Rightarrow> (s\<lparr>transport := resolver p txn r t1\<rparr>, response_outcome r)
           | NoReply \<Rightarrow> (s\<lparr>transport := fire_timeout p t1\<rparr>, Rejected ''Transaction timeout'')))"

text \<open>
  \<open>handleHangup\<close> of the component, the callback registered in \<open>onHangupRef\<close>. The
  rejection of the hangup request is ignored. \<open>registered_seen\<close> is the value of
  \<open>registered\<close> the callback closed over. The callback also closes the chat panel,
  which is state of the component (\<open>useState\<close>) and no part of \<open>phone\<close>.
\<close>

definition handleHangup :: "string \<Rightarrow> gateway_answer \<Rightarrow> bool \<Rightarrow> phone \<Rightarrow> phone" where
  "handleHangup txn answer registered_seen s =
    (let s1 = fst (await_sendMessage (Message Hangup None) txn answer s);
         s2 = setInCall False s1;
         s3 = setCalling False s2;
         s4 = setCurrentCallId None s3;
         s5 = setCurrentWsToken None s4;
         s7 = clearDtmfDigits s5;
         s8 = setStatus (if registered_seen then ''Connected'' else ''Disconnected'') s7;
         s9 = cleanupCall s8
     in clearCallState s9)"





section \<open>The channel: useCallChannel\<close>

subsection \<open>Messages and their constructors\<close>

datatype message_type =
  MChat | MAction | MActionResult | MStatus | MControl | MReconnect | MPing | MPong | MError

datatype message_direction = To_browser | To_ari

record chat_payload =
  role :: string
  content :: string

record action_payload =
  actionId :: string
  action_name :: string
  requiresResponse :: bool

text \<open>\<open>ActionResultPayload\<close>; the optional fields are \<open>None\<close> where the constructor omits them.\<close>

record action_result_payload =
  result_actionId :: string
  result_status :: "string option"
  success :: bool
  result_data :: "string option"
  result_error :: "string option"
  durationMs :: "int option"
  isFinal :: "bool option"

record status_payload =
  state :: string

record control_payload =
  command :: string
  responseMode :: "string option"

record error_payload =
  code :: string
  error_message :: string

record ChannelMessage =
  message_type :: message_type
  message_callId :: string
  messageId :: string
  timestamp :: int
  direction :: message_direction
  chat :: "chat_payload option"
  action :: "action_payload option"
  actionResult :: "action_result_payload option"
  status_of :: "status_payload option"
  control :: "control_payload option"
  reconnect_lastReceived :: "string option option"
  message_error :: "error_payload option"

text \<open>
  \<open>createBaseMessage\<close>. \<open>stamp\<close> holds what \<open>crypto.randomUUID()\<close> and
  \<open>Date.now()\<close> return.
\<close>

definition createBaseMessage ::
  "string \<times> int \<Rightarrow> message_type \<Rightarrow> string \<Rightarrow> message_direction \<Rightarrow> ChannelMessage" where
  "createBaseMessage stamp ty cid dir =
    \<lparr>message_type = ty, message_callId = cid, messageId = fst stamp, timestamp = snd stamp,
     direction = dir, chat = None, action = None, actionResult = None, status_of = None,
     control = None, reconnect_lastReceived = None, message_error = None\<rparr>"

definition createActionResultMessage ::
  "string \<times> int \<Rightarrow> string \<Rightarrow> string \<Rightarrow> bool \<Rightarrow> string option \<Rightarrow> string option \<Rightarrow>
   int option \<Rightarrow> ChannelMessage" where
  "createActionResultMessage stamp cid aid ok dat err dur =
    (createBaseMessage stamp MActionResult cid To_ari)
      \<lparr>actionResult := Some \<lparr>result_actionId = aid, result_status = None, success = ok,
          result_data = dat, result_error = err, durationMs = dur, isFinal = Some True\<rparr>\<rparr>"

definition createActionAckMessage ::
  "string \<times> int \<Rightarrow> string \<Rightarrow> string \<Rightarrow> string \<Rightarrow> ChannelMessage" where
  "createActionAckMessage stamp cid aid st =
    (createBaseMessage stamp MActionResult cid To_ari)
      \<lparr>actionResult := Some \<lparr>result_actionId = aid, result_status = Some st, success = True,
          result_data = None, result_error = None, durationMs = None, isFinal = Some False\<rparr>\<rparr>"

definition createAsyncActionResultMessage ::
  "string \<times> int \<Rightarrow> string \<Rightarrow> string \<Rightarrow> bool \<Rightarrow> string option \<Rightarrow> string option \<Rightarrow>
   int option \<Rightarrow> ChannelMessage" where
  "createAsyncActionResultMessage stamp cid aid ok dat err dur =
    (createBaseMessage stamp MActionResult cid To_ari)
      \<lparr>actionResult := Some \<lparr>result_actionId = aid,
          result_status = Some (if ok then ''completed'' else ''failed''), success = ok,
          result_data = dat, result_error = err, durationMs = dur, isFinal = Some True\<rparr>\<rparr>"

definition createControlMessage ::
  "string \<times> int \<Rightarrow> string \<Rightarrow> string \<Rightarrow> string option \<Rightarrow> ChannelMessage" where
  "createControlMessage stamp cid cmd mode =
    (createBaseMessage stamp MControl cid To_ari)
      \<lparr>control := Some \<lparr>command = cmd, responseMode = mode\<rparr>\<rparr>"

definition createEnableTextChatMessage :: "string \<times> int \<Rightarrow> string \<Rightarrow> string \<Rightarrow> ChannelMessage" where
  "createEnableTextChatMessage stamp cid mode =
    createControlMessage stamp cid ''enable_text_chat'' (Some mode)"

definition createDisableTextChatMessage :: "string \<times> int \<Rightarrow> string \<Rightarrow> ChannelMessage" where
  "createDisableTextChatMessage stamp cid = createControlMessage stamp cid ''disable_text_chat'' None"

subsection \<open>The state of the hook\<close>

datatype ConnectionState = Disconnected | Connecting | Connected | Reconnecting

text \<open>
  The channel socket: its state, the messages written to it, oldest first, and the
  message of the error its \<open>send\<close> raises, when it raises one.
\<close>

record channel_socket =
  channel_readyState :: ready_state
  channel_sent :: "ChannelMessage list"
  send_raises :: "string option"

text \<open>The callbacks of the options that were invoked, in order, where they are supplied.\<close>

datatype callback_call =
    OnConnectionChange ConnectionState
  | OnError string
  | OnMessage ChannelMessage
  | OnChat ChannelMessage
  | OnStatus ChannelMessage
  | OnControl ChannelMessage

text \<open>
  The state of \<open>useState\<close> and the refs of the hook. \<open>reconnectTimerRef\<close> holds the
  delay of the pending reconnect timer and \<open>pingTimerRef\<close> the period of the running
  ping timer.
\<close>

record channel =
  connectionState :: ConnectionState
  messages :: "ChannelMessage list"
  lastError :: "string option"
  textChatEnabled :: bool
  channel_wsRef :: "channel_socket option"
  reconnectTimerRef :: "nat option"
  pingTimerRef :: "nat option"
  lastMessageIdRef :: "string option"
  mountedRef :: bool
  callbacks :: "callback_call list"

text \<open>The options of the hook that the modelled functions read, with their defaults.\<close>

record channel_options =
  opt_callId :: "string option"
  opt_wsToken :: "string option"
  opt_autoReconnect :: "bool option"
  opt_reconnectDelay :: "nat option"



subsection \<open>The functions of the hook\<close>


definition handleError :: "string \<Rightarrow> channel \<Rightarrow> channel" where
  "handleError e ch =
    (if \<not> mountedRef ch then ch
     else ch\<lparr>lastError := Some e, callbacks := callbacks ch @ [OnError e]\<rparr>)"

definition sendRawMessage :: "ChannelMessage \<Rightarrow> channel \<Rightarrow> channel \<times> bool" where
  "sendRawMessage message ch =
    (case channel_wsRef ch of
       None \<Rightarrow> (ch, False)
     | Some ws \<Rightarrow>
         if channel_readyState ws \<noteq> OPEN then (ch, False)
         else
           (case send_raises ws of
              Some e \<Rightarrow> (handleError e ch, False)
            | None \<Rightarrow>
                (ch\<lparr>channel_wsRef := Some (ws\<lparr>channel_sent := channel_sent ws @ [message]\<rparr>)\<rparr>,
                 True)))"

text \<open>What the handler supplied as \<open>onAction\<close> gives for an action: its result, or the
  message of the error it throws.\<close>

datatype handler_result =
    SyncResult bool "string option" "string option"
  | AsyncAck "string option"
  | HandlerThrows string

text \<open>
  The \<open>action\<close> case of \<open>handleMessage\<close>, with nothing interleaved while the handler
  is awaited. \<open>elapsed\<close> is the difference of the two \<open>Date.now()\<close> readings.
\<close>

definition handle_action ::
  "channel_options \<Rightarrow> (action_payload \<Rightarrow> handler_result) \<Rightarrow> string \<times> int \<Rightarrow> int \<Rightarrow>
   action_payload \<Rightarrow> channel \<Rightarrow> channel" where
  "handle_action opts onAction stamp elapsed a ch =
    (case onAction a of
       AsyncAck note \<Rightarrow>
         (case opt_callId opts of
            Some cid \<Rightarrow>
              if requiresResponse a \<and> cid \<noteq> []
              then fst (sendRawMessage (createActionAckMessage stamp cid (actionId a) ''received'') ch)
              else ch
          | None \<Rightarrow> ch)
     | SyncResult ok dat err \<Rightarrow>
         (case opt_callId opts of
            Some cid \<Rightarrow>
              if requiresResponse a \<and> cid \<noteq> []
              then fst (sendRawMessage
                     (createActionResultMessage stamp cid (actionId a) ok dat err (Some elapsed)) ch)
              else ch
          | None \<Rightarrow> ch)
     | HandlerThrows e \<Rightarrow>
         (case opt_callId opts of
            Some cid \<Rightarrow>
              if requiresResponse a \<and> cid \<noteq> []
              then fst (sendRawMessage
                     (createActionResultMessage stamp cid (actionId a) False None (Some e) None) ch)
              else ch
          | None \<Rightarrow> ch))"

text \<open>
  \<open>handleMessage\<close> of the hook. The event data is the parsed message, \<open>None\<close> where
  \<open>JSON.parse\<close> throws; \<open>onAction\<close> is \<open>None\<close> where no handler is supplied.
\<close>

definition channel_handleMessage ::
  "channel_options \<Rightarrow> (action_payload \<Rightarrow> handler_result) option \<Rightarrow> string \<times> int \<Rightarrow> int \<Rightarrow>
   ChannelMessage option \<Rightarrow> channel \<Rightarrow> channel" where
  "channel_handleMessage opts onAction stamp elapsed event_data ch =
    (if \<not> mountedRef ch then ch
     else
       (case event_data of
          None \<Rightarrow> ch
        | Some message \<Rightarrow>
            (let ch1 = ch\<lparr>lastMessageIdRef := Some (messageId message),
                           callbacks := callbacks ch @ [OnMessage message]\<rparr>
             in case message_type message of
                  MChat \<Rightarrow>
                    (case chat message of
                       Some c \<Rightarrow> ch1\<lparr>messages := messages ch1 @ [message],
                                     callbacks := callbacks ch1 @ [OnChat message]\<rparr>
                     | None \<Rightarrow> ch1)
                | MAction \<Rightarrow>
                    (case action message of
                       Some a \<Rightarrow>
                         (case onAction of
                            Some handler \<Rightarrow> handle_action opts handler stamp elapsed a ch1
                          | None \<Rightarrow> ch1)
                     | None \<Rightarrow> ch1)
                | MStatus \<Rightarrow>
                    (case status_of message of
                       Some st \<Rightarrow>
                         (let ch2 = (if state st = ''text_chat_enabled''
                                     then ch1\<lparr>textChatEnabled := True\<rparr>
                                     else if state st = ''text_chat_disabled''
                                     then ch1\<lparr>textChatEnabled := False\<rparr>
                                     else ch1)
                          in ch2\<lparr>callbacks := callbacks ch2 @ [OnStatus message]\<rparr>)
                     | None \<Rightarrow> ch1)
                | MControl \<Rightarrow>
                    (case control message of
                       Some c \<Rightarrow> ch1\<lparr>callbacks := callbacks ch1 @ [OnControl message]\<rparr>
                     | None \<Rightarrow> ch1)
                | MPong \<Rightarrow> ch1
                | MError \<Rightarrow>
                    (case message_error message of
                       Some e \<Rightarrow> handleError (code e @ '': '' @ error_message e) ch1
                     | None \<Rightarrow> ch1)
                | MActionResult \<Rightarrow> ch1
                | MReconnect \<Rightarrow> ch1
                | MPing \<Rightarrow> ch1)))"



definition enableTextChat ::
  "channel_options \<Rightarrow> string \<times> int \<Rightarrow> string \<Rightarrow> channel \<Rightarrow> channel \<times> bool" where
  "enableTextChat opts stamp mode ch =
    (if \<not> truthy (opt_callId opts) then (ch, False)
     else
       (let message = createEnableTextChatMessage stamp (or_else (opt_callId opts) []) mode;
            r = sendRawMessage message ch
        in if snd r then ((fst r)\<lparr>textChatEnabled := True\<rparr>, True) else (fst r, False)))"

definition disableTextChat ::
  "channel_options \<Rightarrow> string \<times> int \<Rightarrow> channel \<Rightarrow> channel \<times> bool" where
  "disableTextChat opts stamp ch =
    (if \<not> truthy (opt_callId opts) then (ch, False)
     else
       (let message = createDisableTextChatMessage stamp (or_else (opt_callId opts) []);
            r = sendRawMessage message ch
        in if snd r then ((fst r)\<lparr>textChatEnabled := False\<rparr>, True) else (fst r, False)))"

definition sendAsyncActionResult ::
  "channel_options \<Rightarrow> string \<times> int \<Rightarrow> string \<Rightarrow> bool \<Rightarrow> string option \<Rightarrow> string option \<Rightarrow>
   int option \<Rightarrow> channel \<Rightarrow> channel \<times> bool" where
  "sendAsyncActionResult opts stamp aid ok dat err dur ch =
    (if \<not> truthy (opt_callId opts) then (ch, False)
     else sendRawMessage
            (createAsyncActionResultMessage stamp (or_else (opt_callId opts) []) aid ok dat err dur)
            ch)"

text \<open>The messages written to the channel socket, and the final results among them
  for one action.\<close>

definition channel_outbox :: "channel \<Rightarrow> ChannelMessage list" where
  "channel_outbox ch = (case channel_wsRef ch of Some ws \<Rightarrow> channel_sent ws | None \<Rightarrow> [])"

definition is_final_result_for :: "string \<Rightarrow> ChannelMessage \<Rightarrow> bool" where
  "is_final_result_for aid m =
    (case actionResult m of
       Some r \<Rightarrow> result_actionId r = aid \<and> isFinal r = Some True
     | None \<Rightarrow> False)"

definition channel_open :: "channel \<Rightarrow> bool" where
  "channel_open ch =
    (case channel_wsRef ch of Some ws \<Rightarrow> channel_readyState ws = OPEN | None \<Rightarrow> False)"

text \<open>The channel socket is open and its \<open>send\<close> does not raise.\<close>

definition channel_accepts :: "channel \<Rightarrow> bool" where
  "channel_accepts ch =
    (case channel_wsRef ch of
       Some ws \<Rightarrow> channel_readyState ws = OPEN \<and> send_raises ws = None
     | None \<Rightarrow> False)"

text \<open>The state the hook starts in, mounted.\<close>

definition initial_channel :: channel where
  "initial_channel =
    \<lparr>connectionState = Disconnected, messages = [], lastError = None,
     textChatEnabled = False, channel_wsRef = None, reconnectTimerRef = None,
     pingTimerRef = None, lastMessageIdRef = None, mountedRef = True, callbacks = []\<rparr>"

section \<open>Properties of the teardown\<close>

lemma close_pc_simps [simp]:
  "pcRef (close_pc m) = None"
  "localStreamRef (close_pc m) = localStreamRef m"
  "remoteAudioRef (close_pc m) = remoteAudioRef m"
  "localAudioRef (close_pc m) = localAudioRef m"
  "closed_pcs (close_pc m) = closed_pcs m + (case pcRef m of Some pc \<Rightarrow> 1 | None \<Rightarrow> 0)"
  by (cases "pcRef m"; simp add: close_pc_def)+

lemma close_pc_none: "pcRef m = None \<Longrightarrow> close_pc m = m"
  by (simp add: close_pc_def)

lemma stop_local_stream_simps [simp]:
  "pcRef (stop_local_stream m) = pcRef m"
  "localStreamRef (stop_local_stream m) = None"
  "remoteAudioRef (stop_local_stream m) = remoteAudioRef m"
  "localAudioRef (stop_local_stream m) = localAudioRef m"
  by (cases "localStreamRef m"; simp add: stop_local_stream_def)+

lemma stop_local_stream_none: "localStreamRef m = None \<Longrightarrow> stop_local_stream m = m"
  by (simp add: stop_local_stream_def)

lemma detach_remote_audio_simps [simp]:
  "pcRef (detach_remote_audio m) = pcRef m"
  "localStreamRef (detach_remote_audio m) = localStreamRef m"
  "localAudioRef (detach_remote_audio m) = localAudioRef m"
  "remoteAudioRef (detach_remote_audio m) = map_option (\<lambda>el. None) (remoteAudioRef m)"
  by (cases "remoteAudioRef m"; simp add: detach_remote_audio_def)+

lemma detach_remote_audio_idem: "remoteAudioRef m \<in> {None, Some None} \<Longrightarrow> detach_remote_audio m = m"
  by (auto simp add: detach_remote_audio_def)

lemma detach_local_audio_simps [simp]:
  "pcRef (detach_local_audio m) = pcRef m"
  "localStreamRef (detach_local_audio m) = localStreamRef m"
  "remoteAudioRef (detach_local_audio m) = remoteAudioRef m"
  "localAudioRef (detach_local_audio m) = map_option (\<lambda>el. None) (localAudioRef m)"
  by (cases "localAudioRef m"; simp add: detach_local_audio_def)+

lemma detach_local_audio_idem: "localAudioRef m \<in> {None, Some None} \<Longrightarrow> detach_local_audio m = m"
  by (auto simp add: detach_local_audio_def)

lemma reset_ice_queue_simps [simp]:
  "pcRef (reset_ice_queue m) = pcRef m"
  "localStreamRef (reset_ice_queue m) = localStreamRef m"
  "remoteAudioRef (reset_ice_queue m) = remoteAudioRef m"
  "localAudioRef (reset_ice_queue m) = localAudioRef m"
  "pendingCandidatesRef (reset_ice_queue m) = []"
  "remoteDescriptionSetRef (reset_ice_queue m) = False"
  "reset_ice_queue (reset_ice_queue m) = reset_ice_queue m"
  by (simp_all add: reset_ice_queue_def)

lemma cleanup_media_fields:
  "pcRef (cleanup_media m) = None"
  "localStreamRef (cleanup_media m) = None"
  "pendingCandidatesRef (cleanup_media m) = []"
  "remoteDescriptionSetRef (cleanup_media m) = False"
  by (simp_all add: cleanup_media_def)

lemma cleanup_media_idem: "cleanup_media (cleanup_media m) = cleanup_media m"
proof -
  let ?c = "cleanup_media m"
  have a: "close_pc ?c = ?c" by (rule close_pc_none) (simp add: cleanup_media_def)
  have b: "stop_local_stream ?c = ?c" by (rule stop_local_stream_none) (simp add: cleanup_media_def)
  have c: "detach_remote_audio ?c = ?c"
    by (rule detach_remote_audio_idem) (cases "remoteAudioRef m"; simp add: cleanup_media_def)
  have d: "detach_local_audio ?c = ?c"
    by (rule detach_local_audio_idem) (cases "localAudioRef m"; simp add: cleanup_media_def)
  have e: "reset_ice_queue ?c = ?c" by (simp add: cleanup_media_def)
  have "cleanup_media ?c = reset_ice_queue (detach_local_audio (detach_remote_audio (stop_local_stream (close_pc ?c))))"
    by (simp only: cleanup_media_def)
  also have "\<dots> = ?c" by (simp only: a b c d e)
  finally show ?thesis .
qed

lemma media_cleanupCall: "media (cleanupCall s) = cleanup_media (media s)"
  by (simp add: cleanupCall_def setAudioBlocked_def)

lemma cleanupCall_fixpoint: "cleanupCall (cleanupCall s) = cleanupCall s"
  by (simp add: cleanupCall_def setAudioBlocked_def cleanup_media_idem)

lemma cleanup_media_released:
  "closed_pcs (cleanup_media m) =
     closed_pcs m + (case pcRef m of Some pc \<Rightarrow> 1 | None \<Rightarrow> 0)"
  "stopped_tracks (cleanup_media m) =
     stopped_tracks m @ (case localStreamRef m of Some stream \<Rightarrow> stream | None \<Rightarrow> [])"
  "remoteAudioRef (cleanup_media m) = map_option (\<lambda>el. None) (remoteAudioRef m)"
  "localAudioRef (cleanup_media m) = map_option (\<lambda>el. None) (localAudioRef m)"
  by (cases "pcRef m"; cases "localStreamRef m"; cases "remoteAudioRef m";
      cases "localAudioRef m";
      simp add: cleanup_media_def reset_ice_queue_def detach_local_audio_def
        detach_remote_audio_def stop_local_stream_def close_pc_def)+

lemma audioBlocked_cleanupCall: "audioBlocked (ui (cleanupCall s)) = False"
  by (simp add: cleanupCall_def setAudioBlocked_def)

text \<open>
  C9. The teardown routine is idempotent: a second run changes nothing, no further
  \<open>close()\<close> or \<open>stop()\<close> call included. Any run releases the peer connection and
  the local stream: \<open>close()\<close> is called on the peer connection that was there,
  \<open>stop()\<close> on every track of the local stream that was there, and both refs are
  null afterwards. After any run the audio elements have no source, the
  pending-candidate queue is empty and the remote-description flag is false.
\<close>

theorem cleanupCall_idempotent_and_releases:
  "cleanupCall (cleanupCall s) = cleanupCall s \<and>
   pcRef (media (cleanupCall s)) = None \<and> localStreamRef (media (cleanupCall s)) = None \<and>
   pendingCandidatesRef (media (cleanupCall s)) = [] \<and>
   remoteDescriptionSetRef (media (cleanupCall s)) = False \<and>
   closed_pcs (media (cleanupCall s)) =
     closed_pcs (media s) + (case pcRef (media s) of Some pc \<Rightarrow> 1 | None \<Rightarrow> 0) \<and>
   stopped_tracks (media (cleanupCall s)) =
     stopped_tracks (media s) @
       (case localStreamRef (media s) of Some stream \<Rightarrow> stream | None \<Rightarrow> []) \<and>
   remoteAudioRef (media (cleanupCall s)) = map_option (\<lambda>el. None) (remoteAudioRef (media s)) \<and>
   localAudioRef (media (cleanupCall s)) = map_option (\<lambda>el. None) (localAudioRef (media s)) \<and>
   audioBlocked (ui (cleanupCall s)) = False"
  by (simp only: cleanupCall_fixpoint media_cleanupCall cleanup_media_fields
      cleanup_media_released audioBlocked_cleanupCall simp_thms)

section \<open>Properties of the request/response layer\<close>

lemma settle_fields [simp]:
  "wsRef (settle p out t) = wsRef t"
  "sessionIdRef (settle p out t) = sessionIdRef t"
  "handleIdRef (settle p out t) = handleIdRef t"
  "transactionsRef (settle p out t) = transactionsRef t"
  "timeouts (settle p out t) = timeouts t"
  "settlements (settle p out t) = settlements t @ [(p, out)]"
  "next_promise (settle p out t) = next_promise t"
  by (simp_all add: settle_def)

lemma sendMessage_closed:
  assumes "wsRef t = None \<or> (\<exists>ws. wsRef t = Some ws \<and> readyState ws \<noteq> OPEN)"
  shows "sendMessage msg txn t =
           (settle (next_promise t) (Rejected ''WebSocket not connected'')
              (t\<lparr>next_promise := next_promise t + 1\<rparr>), next_promise t)"
  using assms by (auto simp add: sendMessage_def Let_def)

text \<open>
  C8. When the signaling socket is absent or not open, \<open>sendMessage\<close> rejects the
  promise it returns at once, with the connection error, and the transaction map is
  the one it was: no resolver is registered, no timer is started and nothing is
  written to the socket.
\<close>

theorem sendMessage_not_open_rejects:
  assumes "wsRef t = None \<or> (\<exists>ws. wsRef t = Some ws \<and> readyState ws \<noteq> OPEN)"
  shows "snd (sendMessage msg txn t) = next_promise t \<and>
         settlements (fst (sendMessage msg txn t)) =
           settlements t @ [(next_promise t, Rejected ''WebSocket not connected'')] \<and>
         transactionsRef (fst (sendMessage msg txn t)) = transactionsRef t \<and>
         timeouts (fst (sendMessage msg txn t)) = timeouts t \<and>
         wsRef (fst (sendMessage msg txn t)) = wsRef t"
  by (simp add: sendMessage_closed [OF assms])

text \<open>
  An instance of C8: the socket is there but closed; the promise is rejected and no
  resolver is registered under the generated id.
\<close>

theorem sendMessage_not_open_rejects_witness:
  "settlements (fst (sendMessage (Message Hangup None) ''Kq3xZ81mPw0a''
      ((transport initial_phone)\<lparr>wsRef := Some \<lparr>readyState = CLOSED, sent = []\<rparr>\<rparr>))) =
     [(0, Rejected ''WebSocket not connected'')] \<and>
   transactionsRef (fst (sendMessage (Message Hangup None) ''Kq3xZ81mPw0a''
      ((transport initial_phone)\<lparr>wsRef := Some \<lparr>readyState = CLOSED, sent = []\<rparr>\<rparr>)))
     ''Kq3xZ81mPw0a'' = None"
proof -
  let ?t = "(transport initial_phone)\<lparr>wsRef := Some \<lparr>readyState = CLOSED, sent = []\<rparr>\<rparr>"
  have h: "wsRef ?t = None \<or> (\<exists>ws. wsRef ?t = Some ws \<and> readyState ws \<noteq> OPEN)"
    by simp
  from sendMessage_not_open_rejects [OF h, of "Message Hangup None" "''Kq3xZ81mPw0a''"]
  show ?thesis by (simp add: initial_phone_def)
qed

subsection \<open>What the handlers leave alone\<close>

lemma transport_setters [simp]:
  "transport (setStatus st s) = transport s"
  "transport (setConnected b s) = transport s"
  "transport (setRegistered b s) = transport s"
  "transport (setCalling b s) = transport s"
  "transport (setInCall b s) = transport s"
  "transport (setReconnecting b s) = transport s"
  "transport (setChatOpen b s) = transport s"
  "transport (setAudioBlocked b s) = transport s"
  "transport (setCurrentCallId c s) = transport s"
  "transport (setCurrentWsToken c s) = transport s"
  "transport (clearDtmfDigits s) = transport s"
  "transport (clearCallState s) = transport s"
  by (simp_all add: setStatus_def setConnected_def setRegistered_def setCalling_def
      setInCall_def setReconnecting_def setChatOpen_def setAudioBlocked_def
      setCurrentCallId_def setCurrentWsToken_def clearDtmfDigits_def clearCallState_def)

lemma transport_cleanupCall [simp]: "transport (cleanupCall s) = transport s"
  by (simp add: cleanupCall_def)

lemma transport_handleSipEvent [simp]: "transport (fst (handleSipEvent d j s)) = transport s"
  by (simp add: handleSipEvent_def Let_def split: option.splits)






subsection \<open>The fields after one operation\<close>



lemma settlements_of_settle [simp]:
  "settlements_of p (settle q out t) =
     (if q = p then settlements_of p t @ [out] else settlements_of p t)"
  by (simp add: settlements_of_def)

lemma settlements_of_update [simp]:
  "settlements_of p (t\<lparr>wsRef := w\<rparr>) = settlements_of p t"
  "settlements_of p (t\<lparr>sessionIdRef := a\<rparr>) = settlements_of p t"
  "settlements_of p (t\<lparr>handleIdRef := a\<rparr>) = settlements_of p t"
  "settlements_of p (t\<lparr>keepAliveRef := k\<rparr>) = settlements_of p t"
  "settlements_of p (t\<lparr>initializingRef := b\<rparr>) = settlements_of p t"
  "settlements_of p (t\<lparr>initializedRef := b\<rparr>) = settlements_of p t"
  "settlements_of p (t\<lparr>transactionsRef := tr\<rparr>) = settlements_of p t"
  "settlements_of p (t\<lparr>timeouts := tm\<rparr>) = settlements_of p t"
  "settlements_of p (t\<lparr>next_promise := n\<rparr>) = settlements_of p t"
  by (simp_all add: settlements_of_def)




subsection \<open>The invariants of the layer\<close>


lemma layer_inv_mono: "layer_inv G t \<Longrightarrow> G \<subseteq> H \<Longrightarrow> layer_inv H t"
  unfolding layer_inv_def by blast








subsection \<open>One promise through a trace\<close>






















section \<open>Properties of the candidate queue\<close>

lemma native_args_append: "native_args (xs @ ys) = native_args xs @ native_args ys"
  by (induction xs rule: native_args.induct) simp_all

lemma addIceCandidate_pc:
  assumes "pcRef m = Some pc"
  shows "addIceCandidate accepts c m =
           m\<lparr>pcRef := Some (pc\<lparr>
              addIceCandidate_calls := addIceCandidate_calls pc @ native_args [c],
              remote_candidates := remote_candidates pc @ filter accepts (native_args [c])\<rparr>)\<rparr>"
proof (cases c)
  case None
  then show ?thesis using assms by (simp add: addIceCandidate_def)
next
  case (Some cand)
  then show ?thesis using assms by (simp add: addIceCandidate_def)
qed

lemma deliver_candidates_queued:
  "\<not> remoteDescriptionSetRef m \<Longrightarrow>
   deliver_candidates accepts cs m = m\<lparr>pendingCandidatesRef := pendingCandidatesRef m @ cs\<rparr>"
proof (induction cs arbitrary: m)
  case Nil
  then show ?case by simp
next
  case (Cons c cs)
  let ?m = "m\<lparr>pendingCandidatesRef := pendingCandidatesRef m @ [c]\<rparr>"
  have "handleRemoteTrickle accepts c m = ?m"
    using Cons.prems by (simp add: handleRemoteTrickle_def)
  moreover have "\<not> remoteDescriptionSetRef ?m" using Cons.prems by simp
  ultimately show ?case using Cons.IH [of ?m] by simp
qed

lemma ice_run_append:
  "ice_run srd_ok accepts (es @ fs) st = ice_run srd_ok accepts fs (ice_run srd_ok accepts es st)"
  by (induction es arbitrary: st) simp_all

lemma ice_run_arrivals_queued:
  "\<not> remoteDescriptionSetRef m \<Longrightarrow>
   ice_run srd_ok accepts (map Arrives cs) (m, task) =
     (m\<lparr>pendingCandidatesRef := pendingCandidatesRef m @ cs\<rparr>, task)"
proof (induction cs arbitrary: m)
  case Nil
  then show ?case by simp
next
  case (Cons c cs)
  let ?m = "m\<lparr>pendingCandidatesRef := pendingCandidatesRef m @ [c]\<rparr>"
  have "handleRemoteTrickle accepts c m = ?m"
    using Cons.prems by (simp add: handleRemoteTrickle_def)
  moreover have "\<not> remoteDescriptionSetRef ?m" using Cons.prems by simp
  ultimately show ?case using Cons.IH [of ?m] by simp
qed

lemma shuffles_prepend_right:
  "zs \<in> shuffles xs ys \<Longrightarrow> ps @ zs \<in> shuffles xs (ps @ ys)"
  by (induction ps) (simp_all add: Cons_in_shuffles_rightI)

lemma shuffles_prepend_left:
  "zs \<in> shuffles xs ys \<Longrightarrow> ps @ zs \<in> shuffles (ps @ xs) ys"
  by (induction ps) (simp_all add: Cons_in_shuffles_leftI)

text \<open>The state after the native call was invoked with \<open>zs\<close>, one after the other.\<close>

lemma applied_twice:
  "m\<lparr>pcRef := Some (pc\<lparr>
        addIceCandidate_calls := addIceCandidate_calls pc @ ps,
        remote_candidates := remote_candidates pc @ filter accepts ps\<rparr>)\<rparr>
    \<lparr>pcRef := Some (pc\<lparr>
        addIceCandidate_calls := addIceCandidate_calls pc @ ps,
        remote_candidates := remote_candidates pc @ filter accepts ps\<rparr>
      \<lparr>addIceCandidate_calls := (addIceCandidate_calls pc @ ps) @ zs,
       remote_candidates := (remote_candidates pc @ filter accepts ps) @ filter accepts zs\<rparr>)\<rparr> =
   m\<lparr>pcRef := Some (pc\<lparr>
        addIceCandidate_calls := addIceCandidate_calls pc @ ps @ zs,
        remote_candidates := remote_candidates pc @ filter accepts (ps @ zs)\<rparr>)\<rparr>"
  by simp

lemma finished_run:
  assumes "pcRef m = Some pc" and "remoteDescriptionSetRef m"
  shows "ice_run srd_ok accepts es (m, Finished) =
     (m\<lparr>pcRef := Some (pc\<lparr>
          addIceCandidate_calls := addIceCandidate_calls pc @ native_args (arrived es),
          remote_candidates := remote_candidates pc @ filter accepts (native_args (arrived es))\<rparr>)\<rparr>,
      Finished)"
  using assms
proof (induction es arbitrary: m pc)
  case Nil
  have "m\<lparr>pcRef := Some pc\<rparr> = m" using Nil by (cases m) simp
  then show ?case by simp
next
  case (Cons e es)
  show ?case
  proof (cases e)
    case Resumes
    have "ice_step srd_ok accepts e (m, Finished) = (m, Finished)"
      using Resumes by (simp add: handleRemoteJsep_resume_def)
    then show ?thesis using Cons.IH [OF Cons.prems] Resumes by simp
  next
    case (Arrives c)
    let ?pc = "pc\<lparr>addIceCandidate_calls := addIceCandidate_calls pc @ native_args [c],
                  remote_candidates := remote_candidates pc @ filter accepts (native_args [c])\<rparr>"
    let ?m = "m\<lparr>pcRef := Some ?pc\<rparr>"
    have st: "ice_step srd_ok accepts e (m, Finished) = (?m, Finished)"
      using Arrives Cons.prems by (simp add: handleRemoteTrickle_def addIceCandidate_pc)
    have a: "pcRef ?m = Some ?pc" and b: "remoteDescriptionSetRef ?m"
      using Cons.prems by simp_all
    have na: "native_args (arrived (e # es)) = native_args [c] @ native_args (arrived es)"
      using Arrives native_args_append [of "[c]" "arrived es"] by simp
    show ?thesis
      unfolding na using Cons.IH [OF a b] st
      by (simp del: native_args.simps)
  qed
qed

lemma flushing_run:
  assumes "pcRef m = Some pc" and "remoteDescriptionSetRef m"
    and "length cs < resumes es"
  shows "\<exists>zs\<in>shuffles (native_args cs) (native_args (arrived es)).
     ice_run srd_ok accepts es (m, Flushing cs) =
       (m\<lparr>pcRef := Some (pc\<lparr>
            addIceCandidate_calls := addIceCandidate_calls pc @ zs,
            remote_candidates := remote_candidates pc @ filter accepts zs\<rparr>)\<rparr>,
        Finished)"
  using assms
proof (induction es arbitrary: m pc cs)
  case Nil
  then show ?case by simp
next
  case (Cons e es)
  show ?case
  proof (cases e)
    case (Arrives c)
    let ?ps = "native_args [c]"
    let ?pc = "pc\<lparr>addIceCandidate_calls := addIceCandidate_calls pc @ ?ps,
                  remote_candidates := remote_candidates pc @ filter accepts ?ps\<rparr>"
    let ?m = "m\<lparr>pcRef := Some ?pc\<rparr>"
    have st: "ice_step srd_ok accepts e (m, Flushing cs) = (?m, Flushing cs)"
      using Arrives Cons.prems by (simp add: handleRemoteTrickle_def addIceCandidate_pc)
    have a: "pcRef ?m = Some ?pc" and b: "remoteDescriptionSetRef ?m"
      using Cons.prems by simp_all
    have c: "length cs < resumes es" using Cons.prems Arrives by simp
    from Cons.IH [OF a b c] obtain zs where
      zs: "zs \<in> shuffles (native_args cs) (native_args (arrived es))" and
      run: "ice_run srd_ok accepts es (?m, Flushing cs) =
         (?m\<lparr>pcRef := Some (?pc\<lparr>
            addIceCandidate_calls := addIceCandidate_calls ?pc @ zs,
            remote_candidates := remote_candidates ?pc @ filter accepts zs\<rparr>)\<rparr>,
          Finished)"
      by blast
    have na: "native_args (arrived (e # es)) = ?ps @ native_args (arrived es)"
      using Arrives native_args_append [of "[c]" "arrived es"] by simp
    have mem: "?ps @ zs \<in> shuffles (native_args cs) (native_args (arrived (e # es)))"
      unfolding na using zs by (rule shuffles_prepend_right)
    have "ice_run srd_ok accepts (e # es) (m, Flushing cs) =
       (m\<lparr>pcRef := Some (pc\<lparr>
            addIceCandidate_calls := addIceCandidate_calls pc @ (?ps @ zs),
            remote_candidates := remote_candidates pc @ filter accepts (?ps @ zs)\<rparr>)\<rparr>,
        Finished)"
      using st run by (simp del: native_args.simps)
    with mem show ?thesis by blast
  next
    case Resumes
    show ?thesis
    proof (cases cs)
      case Nil
      have st: "ice_step srd_ok accepts e (m, Flushing cs) = (m, Finished)"
        using Resumes Nil by (simp add: handleRemoteJsep_resume_def)
      have "ice_run srd_ok accepts (e # es) (m, Flushing cs) =
         (m\<lparr>pcRef := Some (pc\<lparr>
            addIceCandidate_calls := addIceCandidate_calls pc @ native_args (arrived es),
            remote_candidates := remote_candidates pc @ filter accepts (native_args (arrived es))\<rparr>)\<rparr>,
          Finished)"
        using st finished_run [OF Cons.prems(1,2)] by simp
      moreover have "native_args (arrived es) \<in>
          shuffles (native_args cs) (native_args (arrived (e # es)))"
        using Nil Resumes by simp
      ultimately show ?thesis by blast
    next
      case (Cons c cs')
      let ?ps = "native_args [c]"
      let ?pc = "pc\<lparr>addIceCandidate_calls := addIceCandidate_calls pc @ ?ps,
                    remote_candidates := remote_candidates pc @ filter accepts ?ps\<rparr>"
      let ?m = "m\<lparr>pcRef := Some ?pc\<rparr>"
      have st: "ice_step srd_ok accepts e (m, Flushing cs) = (?m, Flushing cs')"
        using Resumes Cons Cons.prems(1)
        by (simp add: handleRemoteJsep_resume_def addIceCandidate_pc del: native_args.simps)
      have a: "pcRef ?m = Some ?pc" and b: "remoteDescriptionSetRef ?m"
        using Cons.prems(2) by simp_all
      have c: "length cs' < resumes es" using Cons.prems(3) Resumes Cons by simp
      from Cons.IH [OF a b c] obtain zs where
        zs: "zs \<in> shuffles (native_args cs') (native_args (arrived es))" and
        run: "ice_run srd_ok accepts es (?m, Flushing cs') =
           (?m\<lparr>pcRef := Some (?pc\<lparr>
              addIceCandidate_calls := addIceCandidate_calls ?pc @ zs,
              remote_candidates := remote_candidates ?pc @ filter accepts zs\<rparr>)\<rparr>,
            Finished)"
        by blast
      have na: "native_args cs = ?ps @ native_args cs'"
        using Cons native_args_append [of "[c]" cs'] by simp
      have ar: "arrived (e # es) = arrived es" using Resumes by simp
      have mem: "?ps @ zs \<in> shuffles (native_args cs) (native_args (arrived (e # es)))"
        unfolding na ar using zs by (rule shuffles_prepend_left)
      have "ice_run srd_ok accepts (e # es) (m, Flushing cs) =
         (m\<lparr>pcRef := Some (pc\<lparr>
              addIceCandidate_calls := addIceCandidate_calls pc @ (?ps @ zs),
              remote_candidates := remote_candidates pc @ filter accepts (?ps @ zs)\<rparr>)\<rparr>,
          Finished)"
        using st run by (simp del: native_args.simps)
      with mem show ?thesis by blast
    qed
  qed
qed

text \<open>
  The resumption after \<open>setRemoteDescription\<close> is the first turn of the loop over
  the queue taken at that moment.
\<close>

lemma resume_after_description:
  assumes "pcRef m = Some pc" and "srd_ok j"
  shows "handleRemoteJsep_resume srd_ok accepts (AwaitingRemoteDescription j) m =
     handleRemoteJsep_resume srd_ok accepts (Flushing (pendingCandidatesRef m))
       (m\<lparr>pcRef := Some (pc\<lparr>remoteDescription := Some j\<rparr>),
          remoteDescriptionSetRef := True, pendingCandidatesRef := []\<rparr>)"
proof (cases "pendingCandidatesRef m")
  case Nil
  then have "m\<lparr>pcRef := Some (pc\<lparr>remoteDescription := Some j\<rparr>),
          remoteDescriptionSetRef := True, pendingCandidatesRef := []\<rparr> =
     m\<lparr>pcRef := Some (pc\<lparr>remoteDescription := Some j\<rparr>), remoteDescriptionSetRef := True\<rparr>"
    by (cases m) simp
  then show ?thesis using assms Nil by (simp add: handleRemoteJsep_resume_def)
next
  case (Cons c cs)
  then show ?thesis using assms by (simp add: handleRemoteJsep_resume_def)
qed

lemma jsep_schedule:
  assumes pc: "pcRef m = Some pc" and fl: "\<not> remoteDescriptionSetRef m" and ok: "srd_ok j"
    and enough: "length (pendingCandidatesRef m @ before) \<le> resumes rest"
  shows "\<exists>zs\<in>shuffles (native_args (pendingCandidatesRef m @ before)) (native_args (arrived rest)).
     ice_run srd_ok accepts (map Arrives before @ Resumes # rest) (m, handleRemoteJsep_start j m) =
       (m\<lparr>pcRef := Some (pc\<lparr>remoteDescription := Some j,
               addIceCandidate_calls := addIceCandidate_calls pc @ zs,
               remote_candidates := remote_candidates pc @ filter accepts zs\<rparr>),
          remoteDescriptionSetRef := True, pendingCandidatesRef := []\<rparr>,
        Finished)"
proof -
  let ?q = "pendingCandidatesRef m @ before"
  let ?m0 = "m\<lparr>pendingCandidatesRef := ?q\<rparr>"
  let ?pc1 = "pc\<lparr>remoteDescription := Some j\<rparr>"
  let ?m1 = "?m0\<lparr>pcRef := Some ?pc1, remoteDescriptionSetRef := True,
               pendingCandidatesRef := []\<rparr>"
  have start: "handleRemoteJsep_start j m = AwaitingRemoteDescription j"
    using pc by (simp add: handleRemoteJsep_start_def)
  have r0: "ice_run srd_ok accepts (map Arrives before) (m, AwaitingRemoteDescription j) =
      (?m0, AwaitingRemoteDescription j)"
    using fl by (rule ice_run_arrivals_queued)
  have pc0: "pcRef ?m0 = Some pc" using pc by simp
  have r1: "ice_step srd_ok accepts Resumes (?m0, AwaitingRemoteDescription j) =
      ice_step srd_ok accepts Resumes (?m1, Flushing ?q)"
    using resume_after_description [where srd_ok = srd_ok and j = j, OF pc0 ok, of accepts] by simp
  have whole: "ice_run srd_ok accepts (map Arrives before @ Resumes # rest)
        (m, handleRemoteJsep_start j m) =
      ice_run srd_ok accepts (Resumes # rest) (?m1, Flushing ?q)"
    unfolding start ice_run_append r0 using r1 by simp
  have a: "pcRef ?m1 = Some ?pc1" and b: "remoteDescriptionSetRef ?m1" by simp_all
  have c: "length ?q < resumes (Resumes # rest)" using enough by simp
  from flushing_run [OF a b c, of srd_ok accepts] obtain zs where
    zs: "zs \<in> shuffles (native_args ?q) (native_args (arrived (Resumes # rest)))" and
    run: "ice_run srd_ok accepts (Resumes # rest) (?m1, Flushing ?q) =
       (?m1\<lparr>pcRef := Some (?pc1\<lparr>
            addIceCandidate_calls := addIceCandidate_calls ?pc1 @ zs,
            remote_candidates := remote_candidates ?pc1 @ filter accepts zs\<rparr>)\<rparr>,
        Finished)"
    by blast
  have "ice_run srd_ok accepts (map Arrives before @ Resumes # rest)
        (m, handleRemoteJsep_start j m) =
       (m\<lparr>pcRef := Some (pc\<lparr>remoteDescription := Some j,
               addIceCandidate_calls := addIceCandidate_calls pc @ zs,
               remote_candidates := remote_candidates pc @ filter accepts zs\<rparr>),
          remoteDescriptionSetRef := True, pendingCandidatesRef := []\<rparr>,
        Finished)"
    unfolding whole run by simp
  moreover have "zs \<in> shuffles (native_args ?q) (native_args (arrived rest))"
    using zs by simp
  ultimately show ?thesis by blast
qed

text \<open>
  C2. (1) While the remote-description flag is false, every remote candidate, the
  null sentinel included, is appended to the pending queue and nothing else changes;
  so candidates delivered one after the other are queued in arrival order. (2) A
  call of \<open>handleRemoteJsep\<close> starts with a peer connection and the flag false;
  the candidates \<open>before\<close> arrive while \<open>setRemoteDescription\<close> is awaited, the
  native call accepts the description, and the call resumes; the events \<open>rest\<close>
  follow, where further candidates may arrive between any two turns of the loop,
  and the call resumes often enough to come to its end. Then the call has
  returned, the flag is set, the queue is empty, and the native \<open>addIceCandidate\<close>
  was invoked with a merge of two sequences that keeps the order of each: the
  queued entries that are neither null nor \<open>completed\<close>, in queue order, and the
  entries of that kind arriving during the flush, in arrival order. The candidates
  the native call accepted are all the accepted ones among the invocations, so a
  rejected candidate stops nothing after it. Each turn of the loop applies one
  entry. (3) While the flag is true a candidate goes through \<open>addIceCandidate\<close> at
  once.
\<close>

theorem remote_candidates_queued_then_flushed_in_order:
  "(\<not> remoteDescriptionSetRef m1 \<longrightarrow>
      handleRemoteTrickle accepts c m1 =
        m1\<lparr>pendingCandidatesRef := pendingCandidatesRef m1 @ [c]\<rparr> \<and>
      pendingCandidatesRef (deliver_candidates accepts cs m1) = pendingCandidatesRef m1 @ cs) \<and>
   (pcRef m2 = Some pc \<and> \<not> remoteDescriptionSetRef m2 \<and> srd_ok j \<and>
    length (pendingCandidatesRef m2 @ before) \<le> resumes rest \<longrightarrow>
      (\<exists>zs\<in>shuffles (native_args (pendingCandidatesRef m2 @ before)) (native_args (arrived rest)).
         ice_run srd_ok accepts (map Arrives before @ Resumes # rest)
             (m2, handleRemoteJsep_start j m2) =
           (m2\<lparr>pcRef := Some (pc\<lparr>remoteDescription := Some j,
                   addIceCandidate_calls := addIceCandidate_calls pc @ zs,
                   remote_candidates := remote_candidates pc @ filter accepts zs\<rparr>),
               remoteDescriptionSetRef := True, pendingCandidatesRef := []\<rparr>,
            Finished)) \<and>
      (arrived rest = [] \<longrightarrow>
         ice_run srd_ok accepts (map Arrives before @ Resumes # rest)
             (m2, handleRemoteJsep_start j m2) =
           (m2\<lparr>pcRef := Some (pc\<lparr>remoteDescription := Some j,
                   addIceCandidate_calls :=
                     addIceCandidate_calls pc @ native_args (pendingCandidatesRef m2 @ before),
                   remote_candidates :=
                     remote_candidates pc @
                     filter accepts (native_args (pendingCandidatesRef m2 @ before))\<rparr>),
               remoteDescriptionSetRef := True, pendingCandidatesRef := []\<rparr>,
            Finished))) \<and>
   handleRemoteJsep_resume srd_ok accepts (Flushing (c # cs)) m4 =
     (addIceCandidate accepts c m4, Flushing cs) \<and>
   (remoteDescriptionSetRef m3 \<longrightarrow>
      handleRemoteTrickle accepts c m3 = addIceCandidate accepts c m3 \<and>
      pendingCandidatesRef (handleRemoteTrickle accepts c m3) = pendingCandidatesRef m3 \<and>
      (\<forall>pc3. pcRef m3 = Some pc3 \<longrightarrow>
         map_option addIceCandidate_calls (pcRef (handleRemoteTrickle accepts c m3)) =
           Some (addIceCandidate_calls pc3 @ native_args [c])))"
proof -
  have one: "\<not> remoteDescriptionSetRef m1 \<longrightarrow>
      handleRemoteTrickle accepts c m1 =
        m1\<lparr>pendingCandidatesRef := pendingCandidatesRef m1 @ [c]\<rparr> \<and>
      pendingCandidatesRef (deliver_candidates accepts cs m1) = pendingCandidatesRef m1 @ cs"
    by (simp add: handleRemoteTrickle_def deliver_candidates_queued)
  have two: "pcRef m2 = Some pc \<and> \<not> remoteDescriptionSetRef m2 \<and> srd_ok j \<and>
    length (pendingCandidatesRef m2 @ before) \<le> resumes rest \<longrightarrow>
      (\<exists>zs\<in>shuffles (native_args (pendingCandidatesRef m2 @ before)) (native_args (arrived rest)).
         ice_run srd_ok accepts (map Arrives before @ Resumes # rest)
             (m2, handleRemoteJsep_start j m2) =
           (m2\<lparr>pcRef := Some (pc\<lparr>remoteDescription := Some j,
                   addIceCandidate_calls := addIceCandidate_calls pc @ zs,
                   remote_candidates := remote_candidates pc @ filter accepts zs\<rparr>),
               remoteDescriptionSetRef := True, pendingCandidatesRef := []\<rparr>,
            Finished)) \<and>
      (arrived rest = [] \<longrightarrow>
         ice_run srd_ok accepts (map Arrives before @ Resumes # rest)
             (m2, handleRemoteJsep_start j m2) =
           (m2\<lparr>pcRef := Some (pc\<lparr>remoteDescription := Some j,
                   addIceCandidate_calls :=
                     addIceCandidate_calls pc @ native_args (pendingCandidatesRef m2 @ before),
                   remote_candidates :=
                     remote_candidates pc @
                     filter accepts (native_args (pendingCandidatesRef m2 @ before))\<rparr>),
               remoteDescriptionSetRef := True, pendingCandidatesRef := []\<rparr>,
            Finished))"
  proof (intro impI, elim conjE)
    assume h: "pcRef m2 = Some pc" "\<not> remoteDescriptionSetRef m2" "srd_ok j"
      "length (pendingCandidatesRef m2 @ before) \<le> resumes rest"
    note ex = jsep_schedule [where srd_ok = srd_ok and j = j, OF h, of accepts]
    have quiet: "arrived rest = [] \<longrightarrow>
         ice_run srd_ok accepts (map Arrives before @ Resumes # rest)
             (m2, handleRemoteJsep_start j m2) =
           (m2\<lparr>pcRef := Some (pc\<lparr>remoteDescription := Some j,
                   addIceCandidate_calls :=
                     addIceCandidate_calls pc @ native_args (pendingCandidatesRef m2 @ before),
                   remote_candidates :=
                     remote_candidates pc @
                     filter accepts (native_args (pendingCandidatesRef m2 @ before))\<rparr>),
               remoteDescriptionSetRef := True, pendingCandidatesRef := []\<rparr>,
            Finished)"
    proof
      assume "arrived rest = []"
      then show "ice_run srd_ok accepts (map Arrives before @ Resumes # rest)
             (m2, handleRemoteJsep_start j m2) =
           (m2\<lparr>pcRef := Some (pc\<lparr>remoteDescription := Some j,
                   addIceCandidate_calls :=
                     addIceCandidate_calls pc @ native_args (pendingCandidatesRef m2 @ before),
                   remote_candidates :=
                     remote_candidates pc @
                     filter accepts (native_args (pendingCandidatesRef m2 @ before))\<rparr>),
               remoteDescriptionSetRef := True, pendingCandidatesRef := []\<rparr>,
            Finished)"
        using ex by simp
    qed
    from ex quiet show "(\<exists>zs\<in>shuffles (native_args (pendingCandidatesRef m2 @ before)) (native_args (arrived rest)).
         ice_run srd_ok accepts (map Arrives before @ Resumes # rest)
             (m2, handleRemoteJsep_start j m2) =
           (m2\<lparr>pcRef := Some (pc\<lparr>remoteDescription := Some j,
                   addIceCandidate_calls := addIceCandidate_calls pc @ zs,
                   remote_candidates := remote_candidates pc @ filter accepts zs\<rparr>),
               remoteDescriptionSetRef := True, pendingCandidatesRef := []\<rparr>,
            Finished)) \<and>
      (arrived rest = [] \<longrightarrow>
         ice_run srd_ok accepts (map Arrives before @ Resumes # rest)
             (m2, handleRemoteJsep_start j m2) =
           (m2\<lparr>pcRef := Some (pc\<lparr>remoteDescription := Some j,
                   addIceCandidate_calls :=
                     addIceCandidate_calls pc @ native_args (pendingCandidatesRef m2 @ before),
                   remote_candidates :=
                     remote_candidates pc @
                     filter accepts (native_args (pendingCandidatesRef m2 @ before))\<rparr>),
               remoteDescriptionSetRef := True, pendingCandidatesRef := []\<rparr>,
            Finished))"
      by (rule conjI)
  qed
  have turn: "handleRemoteJsep_resume srd_ok accepts (Flushing (c # cs)) m4 =
     (addIceCandidate accepts c m4, Flushing cs)"
    by (simp add: handleRemoteJsep_resume_def)
  have three: "remoteDescriptionSetRef m3 \<longrightarrow>
      handleRemoteTrickle accepts c m3 = addIceCandidate accepts c m3 \<and>
      pendingCandidatesRef (handleRemoteTrickle accepts c m3) = pendingCandidatesRef m3 \<and>
      (\<forall>pc3. pcRef m3 = Some pc3 \<longrightarrow>
         map_option addIceCandidate_calls (pcRef (handleRemoteTrickle accepts c m3)) =
           Some (addIceCandidate_calls pc3 @ native_args [c]))"
  proof (intro impI conjI allI)
    assume "remoteDescriptionSetRef m3"
    then show "handleRemoteTrickle accepts c m3 = addIceCandidate accepts c m3"
      by (simp add: handleRemoteTrickle_def)
  next
    assume "remoteDescriptionSetRef m3"
    then show "pendingCandidatesRef (handleRemoteTrickle accepts c m3) = pendingCandidatesRef m3"
      by (cases "pcRef m3")
        (simp_all add: handleRemoteTrickle_def addIceCandidate_pc, simp add: addIceCandidate_def)
  next
    fix pc3
    assume "remoteDescriptionSetRef m3" "pcRef m3 = Some pc3"
    then show "map_option addIceCandidate_calls (pcRef (handleRemoteTrickle accepts c m3)) =
           Some (addIceCandidate_calls pc3 @ native_args [c])"
      by (simp add: handleRemoteTrickle_def addIceCandidate_pc)
  qed
  from one two turn three show ?thesis by (intro conjI)
qed

text \<open>
  A schedule for C2. The queue holds candidate \<open>a1\<close>, the null sentinel and
  candidate \<open>a2\<close>; the native call rejects \<open>a1\<close>. The remote description is applied
  and the loop calls the native function with \<open>a1\<close>; while that is awaited,
  candidate \<open>a3\<close> arrives and goes to the native function at once; then the loop
  goes on. The native function was invoked with \<open>a1\<close>, \<open>a3\<close>, \<open>a2\<close>: the queued
  \<open>a1\<close> before the queued \<open>a2\<close>, the null entry left out; \<open>a3\<close> and \<open>a2\<close> were
  accepted; the queue is empty.
\<close>

theorem remote_candidates_queued_then_flushed_in_order_witness:
  "(\<exists>zs\<in>shuffles [(''a1'', Some ''0'', Some 0), (''a2'', Some ''0'', Some 0)]
                 [(''a3'', Some ''0'', Some 0)].
      ice_run (\<lambda>d. True) (\<lambda>i. fst i \<noteq> ''a1'')
        [Resumes,
         Arrives (Some \<lparr>candidate = ''a3'', sdpMid = Some ''0'', sdpMLineIndex = Some 0,
                        completed = False\<rparr>),
         Resumes, Resumes, Resumes]
        ((media initial_phone)\<lparr>pcRef := Some \<lparr>remoteDescription = None,
            addIceCandidate_calls = [], remote_candidates = []\<rparr>,
          pendingCandidatesRef :=
            [Some \<lparr>candidate = ''a1'', sdpMid = Some ''0'', sdpMLineIndex = Some 0,
                   completed = False\<rparr>,
             None,
             Some \<lparr>candidate = ''a2'', sdpMid = Some ''0'', sdpMLineIndex = Some 0,
                   completed = False\<rparr>]\<rparr>,
         AwaitingRemoteDescription \<lparr>jsep_type = ''answer'', sdp = Some ''v=0''\<rparr>) =
      ((media initial_phone)\<lparr>pcRef := Some \<lparr>
            remoteDescription = Some \<lparr>jsep_type = ''answer'', sdp = Some ''v=0''\<rparr>,
            addIceCandidate_calls = zs,
            remote_candidates = filter (\<lambda>i. fst i \<noteq> ''a1'') zs\<rparr>,
          remoteDescriptionSetRef := True, pendingCandidatesRef := []\<rparr>,
       Finished)) \<and>
   ice_run (\<lambda>d. True) (\<lambda>i. fst i \<noteq> ''a1'')
        [Resumes,
         Arrives (Some \<lparr>candidate = ''a3'', sdpMid = Some ''0'', sdpMLineIndex = Some 0,
                        completed = False\<rparr>),
         Resumes, Resumes, Resumes]
        ((media initial_phone)\<lparr>pcRef := Some \<lparr>remoteDescription = None,
            addIceCandidate_calls = [], remote_candidates = []\<rparr>,
          pendingCandidatesRef :=
            [Some \<lparr>candidate = ''a1'', sdpMid = Some ''0'', sdpMLineIndex = Some 0,
                   completed = False\<rparr>,
             None,
             Some \<lparr>candidate = ''a2'', sdpMid = Some ''0'', sdpMLineIndex = Some 0,
                   completed = False\<rparr>]\<rparr>,
         AwaitingRemoteDescription \<lparr>jsep_type = ''answer'', sdp = Some ''v=0''\<rparr>) =
      ((media initial_phone)\<lparr>pcRef := Some \<lparr>
            remoteDescription = Some \<lparr>jsep_type = ''answer'', sdp = Some ''v=0''\<rparr>,
            addIceCandidate_calls =
              [(''a1'', Some ''0'', Some 0), (''a3'', Some ''0'', Some 0),
               (''a2'', Some ''0'', Some 0)],
            remote_candidates = [(''a3'', Some ''0'', Some 0), (''a2'', Some ''0'', Some 0)]\<rparr>,
          remoteDescriptionSetRef := True, pendingCandidatesRef := []\<rparr>,
       Finished)"
proof -
  let ?c1 = "\<lparr>candidate = ''a1'', sdpMid = Some ''0'', sdpMLineIndex = Some 0, completed = False\<rparr>"
  let ?c2 = "\<lparr>candidate = ''a2'', sdpMid = Some ''0'', sdpMLineIndex = Some 0, completed = False\<rparr>"
  let ?c3 = "\<lparr>candidate = ''a3'', sdpMid = Some ''0'', sdpMLineIndex = Some 0, completed = False\<rparr>"
  let ?pc = "\<lparr>remoteDescription = None, addIceCandidate_calls = [], remote_candidates = []\<rparr>"
  let ?j = "\<lparr>jsep_type = ''answer'', sdp = Some ''v=0''\<rparr>"
  let ?m2 = "(media initial_phone)\<lparr>pcRef := Some ?pc,
               pendingCandidatesRef := [Some ?c1, None, Some ?c2]\<rparr>"
  let ?rest = "[Arrives (Some ?c3), Resumes, Resumes, Resumes]"
  let ?acc = "\<lambda>i::ice_init. fst i \<noteq> ''a1''"
  have h: "pcRef ?m2 = Some ?pc \<and> \<not> remoteDescriptionSetRef ?m2 \<and> (\<lambda>d. True) ?j \<and>
      length (pendingCandidatesRef ?m2 @ []) \<le> resumes ?rest"
    by (simp add: initial_phone_def)
  have st: "handleRemoteJsep_start ?j ?m2 = AwaitingRemoteDescription ?j"
    by (simp add: handleRemoteJsep_start_def)
  have na: "native_args (pendingCandidatesRef ?m2 @ []) =
      [(''a1'', Some ''0'', Some 0), (''a2'', Some ''0'', Some 0)]"
    by (simp add: ice_init_of_def)
  have nb: "native_args (arrived ?rest) = [(''a3'', Some ''0'', Some 0)]"
    by (simp add: ice_init_of_def)
  note t = remote_candidates_queued_then_flushed_in_order
    [of ?m2 ?acc None "[]" ?m2 ?pc "\<lambda>d. True" ?j "[]" ?rest ?m2 ?m2,
      THEN conjunct2, THEN conjunct1, THEN mp, OF h, THEN conjunct1]
  have a: "\<exists>zs\<in>shuffles [(''a1'', Some ''0'', Some 0), (''a2'', Some ''0'', Some 0)]
                 [(''a3'', Some ''0'', Some 0)].
      ice_run (\<lambda>d. True) ?acc (Resumes # ?rest) (?m2, AwaitingRemoteDescription ?j) =
      ((media initial_phone)\<lparr>pcRef := Some \<lparr>remoteDescription = Some ?j,
            addIceCandidate_calls = zs, remote_candidates = filter ?acc zs\<rparr>,
          remoteDescriptionSetRef := True, pendingCandidatesRef := []\<rparr>,
       Finished)"
    using t unfolding st na nb by (simp del: ice_run.simps shuffles.simps)
  have b: "ice_run (\<lambda>d. True) ?acc (Resumes # ?rest) (?m2, AwaitingRemoteDescription ?j) =
      ((media initial_phone)\<lparr>pcRef := Some \<lparr>remoteDescription = Some ?j,
            addIceCandidate_calls =
              [(''a1'', Some ''0'', Some 0), (''a3'', Some ''0'', Some 0),
               (''a2'', Some ''0'', Some 0)],
            remote_candidates = [(''a3'', Some ''0'', Some 0), (''a2'', Some ''0'', Some 0)]\<rparr>,
          remoteDescriptionSetRef := True, pendingCandidatesRef := []\<rparr>,
       Finished)"
    by (simp add: handleRemoteJsep_resume_def handleRemoteTrickle_def addIceCandidate_def
        ice_init_of_def initial_phone_def)
  from a b show ?thesis by (rule conjI)
qed

section \<open>Properties of the persisted record\<close>

lemma restore_store_fields [simp]:
  "reconnecting (connection (restore_store st s)) = True"
  "storage (restore_store st s) = storage s"
  "transport (restore_store st s) = transport s"
  "media (restore_store st s) = media s"
  by (auto simp add: restore_store_def Let_def)

lemma setReconnecting_fields [simp]:
  "reconnecting (connection (setReconnecting b s)) = b"
  "storage (setReconnecting b s) = storage s"
  "pendingReconnectRef (setReconnecting b s) = pendingReconnectRef s"
  "media (setReconnecting b s) = media s"
  by (simp_all add: setReconnecting_def)

lemma clearCallState_fields [simp]:
  "storage (clearCallState s) = None"
  "connection (clearCallState s) = connection s"
  "media (clearCallState s) = media s"
  "pendingReconnectRef (clearCallState s) = pendingReconnectRef s"
  by (simp_all add: clearCallState_def)

lemma loadCallState_absent:
  "storage s = None \<Longrightarrow> loadCallState parse now s = (s, None)"
  by (simp add: loadCallState_def)

lemma loadCallState_stale:
  "storage s = Some str \<Longrightarrow> str \<noteq> [] \<Longrightarrow> parse str = Some st \<Longrightarrow>
   now - startedAt st > 20000 \<Longrightarrow> loadCallState parse now s = (clearCallState s, None)"
  by (simp add: loadCallState_def)

lemma loadCallState_fresh:
  "storage s = Some str \<Longrightarrow> str \<noteq> [] \<Longrightarrow> parse str = Some st \<Longrightarrow>
   now - startedAt st \<le> 20000 \<Longrightarrow> loadCallState parse now s = (s, Some st)"
  by (simp add: loadCallState_def)

text \<open>
  C3. \<open>restoreFromPersistedState\<close>, which starts with \<open>loadCallState\<close>: (1) with no
  item in storage it returns null and changes nothing; (2) with a record whose
  \<open>startedAt\<close> lies more than 20000 ms before the time of the load it removes the item
  and returns null; (3) with a record not older than that and without a
  \<open>telproDomain\<close> it removes the item, leaves the reconnecting flag false and
  returns null; (4) with a record not older than that and with a \<open>telproDomain\<close> it
  returns the record, sets the reconnecting flag and leaves the item in place.
\<close>

theorem restore_cases:
  "(storage s1 = None \<longrightarrow>
      restoreFromPersistedState parse now s1 = (s1, None)) \<and>
   (storage s2 = Some str2 \<and> str2 \<noteq> [] \<and> parse str2 = Some st2 \<and>
    now - startedAt st2 > 20000 \<longrightarrow>
      snd (restoreFromPersistedState parse now s2) = None \<and>
      storage (fst (restoreFromPersistedState parse now s2)) = None) \<and>
   (storage s3 = Some str3 \<and> str3 \<noteq> [] \<and> parse str3 = Some st3 \<and>
    now - startedAt st3 \<le> 20000 \<and> \<not> truthy (telproDomain st3) \<longrightarrow>
      snd (restoreFromPersistedState parse now s3) = None \<and>
      storage (fst (restoreFromPersistedState parse now s3)) = None \<and>
      reconnecting (connection (fst (restoreFromPersistedState parse now s3))) = False) \<and>
   (storage s4 = Some str4 \<and> str4 \<noteq> [] \<and> parse str4 = Some st4 \<and>
    now - startedAt st4 \<le> 20000 \<and> truthy (telproDomain st4) \<longrightarrow>
      snd (restoreFromPersistedState parse now s4) = Some st4 \<and>
      storage (fst (restoreFromPersistedState parse now s4)) = storage s4 \<and>
      reconnecting (connection (fst (restoreFromPersistedState parse now s4))) = True)"
proof (intro conjI impI)
  assume "storage s1 = None"
  then show "restoreFromPersistedState parse now s1 = (s1, None)"
    by (simp add: restoreFromPersistedState_def loadCallState_absent)
next
  assume a: "storage s2 = Some str2 \<and> str2 \<noteq> [] \<and> parse str2 = Some st2 \<and>
    now - startedAt st2 > 20000"
  then have l: "loadCallState parse now s2 = (clearCallState s2, None)"
    by (simp add: loadCallState_stale)
  show "snd (restoreFromPersistedState parse now s2) = None"
    by (simp add: restoreFromPersistedState_def l)
  show "storage (fst (restoreFromPersistedState parse now s2)) = None"
    by (simp add: restoreFromPersistedState_def l)
next
  assume a: "storage s3 = Some str3 \<and> str3 \<noteq> [] \<and> parse str3 = Some st3 \<and>
    now - startedAt st3 \<le> 20000 \<and> \<not> truthy (telproDomain st3)"
  then have l: "loadCallState parse now s3 = (s3, Some st3)"
    by (simp add: loadCallState_fresh)
  from a have d: "\<not> truthy (telproDomain st3)" by simp
  show "snd (restoreFromPersistedState parse now s3) = None"
    by (simp add: restoreFromPersistedState_def l d)
  show "storage (fst (restoreFromPersistedState parse now s3)) = None"
    by (simp add: restoreFromPersistedState_def l d)
  show "reconnecting (connection (fst (restoreFromPersistedState parse now s3))) = False"
    by (simp add: restoreFromPersistedState_def l d)
next
  assume a: "storage s4 = Some str4 \<and> str4 \<noteq> [] \<and> parse str4 = Some st4 \<and>
    now - startedAt st4 \<le> 20000 \<and> truthy (telproDomain st4)"
  then have l: "loadCallState parse now s4 = (s4, Some st4)"
    by (simp add: loadCallState_fresh)
  from a have d: "truthy (telproDomain st4)" by simp
  show "snd (restoreFromPersistedState parse now s4) = Some st4"
    by (simp add: restoreFromPersistedState_def l d)
  show "storage (fst (restoreFromPersistedState parse now s4)) = storage s4"
    by (simp add: restoreFromPersistedState_def l d)
  show "reconnecting (connection (fst (restoreFromPersistedState parse now s4))) = True"
    by (simp add: restoreFromPersistedState_def l d)
qed

text \<open>
  Instances of C3 at time 100000: no item; a record started at 70000; a record
  started at 90000 without a domain; a record started at 90000 with one.
\<close>

theorem restore_cases_witness:
  "restoreFromPersistedState
     (\<lambda>str. if str = ''old'' then Some \<lparr>callId = ''c1'', endpointId = ''e1'', endpointName = None,
                 appName = None, startedAt = 70000, wsToken = None, telproDomain = Some ''pbx.example''\<rparr>
            else if str = ''nodomain'' then Some \<lparr>callId = ''c1'', endpointId = ''e1'', endpointName = None,
                 appName = None, startedAt = 90000, wsToken = None, telproDomain = None\<rparr>
            else if str = ''good'' then Some \<lparr>callId = ''c1'', endpointId = ''e1'', endpointName = None,
                 appName = None, startedAt = 90000, wsToken = None, telproDomain = Some ''pbx.example''\<rparr>
            else None)
     100000 initial_phone = (initial_phone, None) \<and>
   snd (restoreFromPersistedState
     (\<lambda>str. if str = ''old'' then Some \<lparr>callId = ''c1'', endpointId = ''e1'', endpointName = None,
                 appName = None, startedAt = 70000, wsToken = None, telproDomain = Some ''pbx.example''\<rparr>
            else if str = ''nodomain'' then Some \<lparr>callId = ''c1'', endpointId = ''e1'', endpointName = None,
                 appName = None, startedAt = 90000, wsToken = None, telproDomain = None\<rparr>
            else if str = ''good'' then Some \<lparr>callId = ''c1'', endpointId = ''e1'', endpointName = None,
                 appName = None, startedAt = 90000, wsToken = None, telproDomain = Some ''pbx.example''\<rparr>
            else None)
     100000 (initial_phone\<lparr>storage := Some ''old''\<rparr>)) = None \<and>
   storage (fst (restoreFromPersistedState
     (\<lambda>str. if str = ''old'' then Some \<lparr>callId = ''c1'', endpointId = ''e1'', endpointName = None,
                 appName = None, startedAt = 70000, wsToken = None, telproDomain = Some ''pbx.example''\<rparr>
            else if str = ''nodomain'' then Some \<lparr>callId = ''c1'', endpointId = ''e1'', endpointName = None,
                 appName = None, startedAt = 90000, wsToken = None, telproDomain = None\<rparr>
            else if str = ''good'' then Some \<lparr>callId = ''c1'', endpointId = ''e1'', endpointName = None,
                 appName = None, startedAt = 90000, wsToken = None, telproDomain = Some ''pbx.example''\<rparr>
            else None)
     100000 (initial_phone\<lparr>storage := Some ''old''\<rparr>))) = None \<and>
   storage (fst (restoreFromPersistedState
     (\<lambda>str. if str = ''old'' then Some \<lparr>callId = ''c1'', endpointId = ''e1'', endpointName = None,
                 appName = None, startedAt = 70000, wsToken = None, telproDomain = Some ''pbx.example''\<rparr>
            else if str = ''nodomain'' then Some \<lparr>callId = ''c1'', endpointId = ''e1'', endpointName = None,
                 appName = None, startedAt = 90000, wsToken = None, telproDomain = None\<rparr>
            else if str = ''good'' then Some \<lparr>callId = ''c1'', endpointId = ''e1'', endpointName = None,
                 appName = None, startedAt = 90000, wsToken = None, telproDomain = Some ''pbx.example''\<rparr>
            else None)
     100000 (initial_phone\<lparr>storage := Some ''nodomain''\<rparr>))) = None \<and>
   reconnecting (connection (fst (restoreFromPersistedState
     (\<lambda>str. if str = ''old'' then Some \<lparr>callId = ''c1'', endpointId = ''e1'', endpointName = None,
                 appName = None, startedAt = 70000, wsToken = None, telproDomain = Some ''pbx.example''\<rparr>
            else if str = ''nodomain'' then Some \<lparr>callId = ''c1'', endpointId = ''e1'', endpointName = None,
                 appName = None, startedAt = 90000, wsToken = None, telproDomain = None\<rparr>
            else if str = ''good'' then Some \<lparr>callId = ''c1'', endpointId = ''e1'', endpointName = None,
                 appName = None, startedAt = 90000, wsToken = None, telproDomain = Some ''pbx.example''\<rparr>
            else None)
     100000 (initial_phone\<lparr>storage := Some ''nodomain''\<rparr>)))) = False \<and>
   snd (restoreFromPersistedState
     (\<lambda>str. if str = ''old'' then Some \<lparr>callId = ''c1'', endpointId = ''e1'', endpointName = None,
                 appName = None, startedAt = 70000, wsToken = None, telproDomain = Some ''pbx.example''\<rparr>
            else if str = ''nodomain'' then Some \<lparr>callId = ''c1'', endpointId = ''e1'', endpointName = None,
                 appName = None, startedAt = 90000, wsToken = None, telproDomain = None\<rparr>
            else if str = ''good'' then Some \<lparr>callId = ''c1'', endpointId = ''e1'', endpointName = None,
                 appName = None, startedAt = 90000, wsToken = None, telproDomain = Some ''pbx.example''\<rparr>
            else None)
     100000 (initial_phone\<lparr>storage := Some ''good''\<rparr>)) =
     Some \<lparr>callId = ''c1'', endpointId = ''e1'', endpointName = None,
            appName = None, startedAt = 90000, wsToken = None, telproDomain = Some ''pbx.example''\<rparr> \<and>
   reconnecting (connection (fst (restoreFromPersistedState
     (\<lambda>str. if str = ''old'' then Some \<lparr>callId = ''c1'', endpointId = ''e1'', endpointName = None,
                 appName = None, startedAt = 70000, wsToken = None, telproDomain = Some ''pbx.example''\<rparr>
            else if str = ''nodomain'' then Some \<lparr>callId = ''c1'', endpointId = ''e1'', endpointName = None,
                 appName = None, startedAt = 90000, wsToken = None, telproDomain = None\<rparr>
            else if str = ''good'' then Some \<lparr>callId = ''c1'', endpointId = ''e1'', endpointName = None,
                 appName = None, startedAt = 90000, wsToken = None, telproDomain = Some ''pbx.example''\<rparr>
            else None)
     100000 (initial_phone\<lparr>storage := Some ''good''\<rparr>)))) = True"
proof -
  let ?old = "\<lparr>callId = ''c1'', endpointId = ''e1'', endpointName = None,
      appName = None, startedAt = 70000, wsToken = None, telproDomain = Some ''pbx.example''\<rparr>"
  let ?nod = "\<lparr>callId = ''c1'', endpointId = ''e1'', endpointName = None,
      appName = None, startedAt = 90000, wsToken = None, telproDomain = None\<rparr>"
  let ?good = "\<lparr>callId = ''c1'', endpointId = ''e1'', endpointName = None,
      appName = None, startedAt = 90000, wsToken = None, telproDomain = Some ''pbx.example''\<rparr>"
  let ?parse = "\<lambda>str. if str = ''old'' then Some ?old
            else if str = ''nodomain'' then Some ?nod
            else if str = ''good'' then Some ?good
            else None"
  have h1: "storage initial_phone = None" by (simp add: initial_phone_def)
  have h2: "storage (initial_phone\<lparr>storage := Some ''old''\<rparr>) = Some ''old'' \<and> ''old'' \<noteq> [] \<and>
      ?parse ''old'' = Some ?old \<and> 100000 - startedAt ?old > 20000" by simp
  have h3: "storage (initial_phone\<lparr>storage := Some ''nodomain''\<rparr>) = Some ''nodomain'' \<and>
      ''nodomain'' \<noteq> [] \<and> ?parse ''nodomain'' = Some ?nod \<and>
      100000 - startedAt ?nod \<le> 20000 \<and> \<not> truthy (telproDomain ?nod)"
    by (simp add: truthy_def)
  have h4: "storage (initial_phone\<lparr>storage := Some ''good''\<rparr>) = Some ''good'' \<and>
      ''good'' \<noteq> [] \<and> ?parse ''good'' = Some ?good \<and>
      100000 - startedAt ?good \<le> 20000 \<and> truthy (telproDomain ?good)"
    by (simp add: truthy_def)
  from restore_cases [of initial_phone ?parse 100000
      "initial_phone\<lparr>storage := Some ''old''\<rparr>" "''old''" ?old
      "initial_phone\<lparr>storage := Some ''nodomain''\<rparr>" "''nodomain''" ?nod
      "initial_phone\<lparr>storage := Some ''good''\<rparr>" "''good''" ?good]
  show ?thesis using h1 h2 h3 h4 by blast
qed

section \<open>Properties of hangup and reconnection\<close>

lemma setters_as_updates:
  "setStatus st s = s\<lparr>connection := (connection s)\<lparr>status := st\<rparr>\<rparr>"
  "setConnected b s = s\<lparr>connection := (connection s)\<lparr>connected := b\<rparr>\<rparr>"
  "setRegistered b s = s\<lparr>connection := (connection s)\<lparr>registered := b\<rparr>\<rparr>"
  "setCalling b s = s\<lparr>connection := (connection s)\<lparr>calling := b\<rparr>\<rparr>"
  "setInCall b s = s\<lparr>connection := (connection s)\<lparr>inCall := b\<rparr>\<rparr>"
  "setReconnecting b s = s\<lparr>connection := (connection s)\<lparr>reconnecting := b\<rparr>\<rparr>"
  "setChatOpen b s = s\<lparr>ui := (ui s)\<lparr>chatOpen := b\<rparr>\<rparr>"
  "setAudioBlocked b s = s\<lparr>ui := (ui s)\<lparr>audioBlocked := b\<rparr>\<rparr>"
  "setEndpointId e s = s\<lparr>callData := (callData s)\<lparr>cd_endpointId := e\<rparr>\<rparr>"
  "setEndpointName e s = s\<lparr>callData := (callData s)\<lparr>cd_endpointName := e\<rparr>\<rparr>"
  "setAppName e s = s\<lparr>callData := (callData s)\<lparr>cd_appName := e\<rparr>\<rparr>"
  "setCurrentCallId c s = s\<lparr>callData := (callData s)\<lparr>currentCallId := c\<rparr>\<rparr>"
  "setCurrentWsToken c s = s\<lparr>callData := (callData s)\<lparr>currentWsToken := c\<rparr>\<rparr>"
  "clearDtmfDigits s = s\<lparr>callData := (callData s)\<lparr>dtmfDigits := []\<rparr>\<rparr>"
  by (simp_all add: setStatus_def setConnected_def setRegistered_def setCalling_def
      setInCall_def setReconnecting_def setChatOpen_def setAudioBlocked_def setEndpointId_def
      setEndpointName_def setAppName_def setCurrentCallId_def setCurrentWsToken_def
      clearDtmfDigits_def)

lemma cleanupCall_as_update:
  "cleanupCall s = s\<lparr>media := cleanup_media (media s), ui := (ui s)\<lparr>audioBlocked := False\<rparr>\<rparr>"
  by (simp add: cleanupCall_def setters_as_updates)

lemma await_sendMessage_transport_only:
  "fst (await_sendMessage msg txn answer s) =
     s\<lparr>transport := transport (fst (await_sendMessage msg txn answer s))\<rparr>"
  by (simp add: await_sendMessage_def Let_def split: gateway_answer.splits)

lemma handleHangup_as_update:
  "handleHangup txn answer seen s =
     s\<lparr>transport := transport (fst (await_sendMessage (Message Hangup None) txn answer s)),
       connection := (connection s)\<lparr>inCall := False, calling := False,
          status := (if seen then ''Connected'' else ''Disconnected'')\<rparr>,
       callData := (callData s)\<lparr>currentCallId := None, currentWsToken := None,
          dtmfDigits := []\<rparr>,
       ui := (ui s)\<lparr>audioBlocked := False\<rparr>,
       media := cleanup_media (media s),
       storage := None\<rparr>"
proof -
  obtain T where T: "fst (await_sendMessage (Message Hangup None) txn answer s) = s\<lparr>transport := T\<rparr>"
    using await_sendMessage_transport_only by blast
  show ?thesis
    unfolding handleHangup_def Let_def T
    by (simp add: setters_as_updates cleanupCall_as_update clearCallState_def)
qed

text \<open>
  C7. With the hangup callback registered, a SIP event \<open>hangup\<close>, \<open>declining\<close> or
  \<open>missed\<close> changes nothing itself and invokes the callback once; so does the frame
  that carries the event, and so does a gateway frame \<open>hangup\<close>, when the frame is
  not the response to a pending transaction. The callback, whatever becomes of its
  hangup request, leaves \<open>inCall\<close> and \<open>calling\<close> false, removes the persisted
  record, and leaves the media refs as the cleanup routine makes them: the peer
  connection and the local stream released, the queue empty, the flag false.
\<close>

theorem inbound_hangup_invokes_callback_once:
  assumes cb: "onHangupRef s"
    and ev: "sip_event_name d = Some ev"
    and kind: "ev = ''hangup'' \<or> ev = ''declining'' \<or> ev = ''missed''"
  shows "handleSipEvent d j s = (s, [HangupCallback]) \<and>
    (janus msg = ''event'' \<and> plugindata_data msg = Some d \<and>
     matching_resolver msg (transport s) = None \<longrightarrow>
       handleMessage accepts msg s = (s, [HangupCallback])) \<and>
    (janus msg2 = ''hangup'' \<and> matching_resolver msg2 (transport s) = None \<longrightarrow>
       handleMessage accepts msg2 s = (s, [HangupCallback])) \<and>
    inCall (connection (handleHangup txn answer seen s)) = False \<and>
    calling (connection (handleHangup txn answer seen s)) = False \<and>
    storage (handleHangup txn answer seen s) = None \<and>
    media (handleHangup txn answer seen s) = cleanup_media (media s) \<and>
    pcRef (media (handleHangup txn answer seen s)) = None \<and>
    localStreamRef (media (handleHangup txn answer seen s)) = None \<and>
    pendingCandidatesRef (media (handleHangup txn answer seen s)) = [] \<and>
    remoteDescriptionSetRef (media (handleHangup txn answer seen s)) = False"
proof -
  have any: "handleSipEvent d k s = (s, [HangupCallback])" for k
    using cb ev kind by (auto simp add: handleSipEvent_def invoke_onHangup_def)
  have a: "handleSipEvent d j s = (s, [HangupCallback])" by (rule any)
  have b: "janus msg = ''event'' \<and> plugindata_data msg = Some d \<and>
     matching_resolver msg (transport s) = None \<longrightarrow>
       handleMessage accepts msg s = (s, [HangupCallback])"
    using any [of "in_jsep msg"] by (simp add: handleMessage_def)
  have c: "janus msg2 = ''hangup'' \<and> matching_resolver msg2 (transport s) = None \<longrightarrow>
       handleMessage accepts msg2 s = (s, [HangupCallback])"
    using cb by (simp add: handleMessage_def invoke_onHangup_def)
  have d: "media (handleHangup txn answer seen s) = cleanup_media (media s)"
    by (simp add: handleHangup_as_update)
  have e: "inCall (connection (handleHangup txn answer seen s)) = False"
    "calling (connection (handleHangup txn answer seen s)) = False"
    "storage (handleHangup txn answer seen s) = None"
    by (simp_all add: handleHangup_as_update)
  show ?thesis
    using a b c e by (simp only: d cleanup_media_fields simp_thms)
qed

text \<open>
  The scenario of the specification for C7: a call is in progress, its record is
  persisted, and the gateway reports \<open>hangup\<close>. The callback is invoked once; when
  it has run (here the hangup request gets no reply) the call flags are false and
  the record is gone.
\<close>

theorem inbound_hangup_invokes_callback_once_witness:
  "handleSipEvent \<lparr>result_event = Some ''hangup'', result_reason = None, sip = None\<rparr> None
     (initial_phone\<lparr>onHangupRef := True,
        connection := (connection initial_phone)\<lparr>inCall := True\<rparr>,
        storage := Some ''saved''\<rparr>) =
     (initial_phone\<lparr>onHangupRef := True,
        connection := (connection initial_phone)\<lparr>inCall := True\<rparr>,
        storage := Some ''saved''\<rparr>, [HangupCallback]) \<and>
   inCall (connection (handleHangup ''Kq3xZ81mPw0a'' NoReply True
     (initial_phone\<lparr>onHangupRef := True,
        connection := (connection initial_phone)\<lparr>inCall := True\<rparr>,
        storage := Some ''saved''\<rparr>))) = False \<and>
   calling (connection (handleHangup ''Kq3xZ81mPw0a'' NoReply True
     (initial_phone\<lparr>onHangupRef := True,
        connection := (connection initial_phone)\<lparr>inCall := True\<rparr>,
        storage := Some ''saved''\<rparr>))) = False \<and>
   storage (handleHangup ''Kq3xZ81mPw0a'' NoReply True
     (initial_phone\<lparr>onHangupRef := True,
        connection := (connection initial_phone)\<lparr>inCall := True\<rparr>,
        storage := Some ''saved''\<rparr>)) = None \<and>
   handleMessage (\<lambda>c. True)
     \<lparr>transaction = None, janus = ''event'', error = None,
      plugindata_data = Some \<lparr>result_event = Some ''hangup'', result_reason = None, sip = None\<rparr>,
      in_jsep = None, in_candidate = None\<rparr>
     (initial_phone\<lparr>onHangupRef := True,
        connection := (connection initial_phone)\<lparr>inCall := True\<rparr>,
        storage := Some ''saved''\<rparr>) =
     (initial_phone\<lparr>onHangupRef := True,
        connection := (connection initial_phone)\<lparr>inCall := True\<rparr>,
        storage := Some ''saved''\<rparr>, [HangupCallback]) \<and>
   handleMessage (\<lambda>c. True)
     \<lparr>transaction = None, janus = ''hangup'', error = None, plugindata_data = None,
      in_jsep = None, in_candidate = None\<rparr>
     (initial_phone\<lparr>onHangupRef := True,
        connection := (connection initial_phone)\<lparr>inCall := True\<rparr>,
        storage := Some ''saved''\<rparr>) =
     (initial_phone\<lparr>onHangupRef := True,
        connection := (connection initial_phone)\<lparr>inCall := True\<rparr>,
        storage := Some ''saved''\<rparr>, [HangupCallback])"
proof -
  let ?s = "initial_phone\<lparr>onHangupRef := True,
        connection := (connection initial_phone)\<lparr>inCall := True\<rparr>,
        storage := Some ''saved''\<rparr>"
  let ?d = "\<lparr>result_event = Some ''hangup'', result_reason = None, sip = None\<rparr>"
  have cb: "onHangupRef ?s" by simp
  have ev: "sip_event_name ?d = Some ''hangup''" by (simp add: sip_event_name_def)
  have kind: "''hangup'' = ''hangup'' \<or> ''hangup'' = ''declining'' \<or> ''hangup'' = ''missed''"
    by simp
  let ?m1 = "\<lparr>transaction = None, janus = ''event'', error = None,
      plugindata_data = Some ?d, in_jsep = None, in_candidate = None\<rparr>"
  let ?m2 = "\<lparr>transaction = None, janus = ''hangup'', error = None, plugindata_data = None,
      in_jsep = None, in_candidate = None\<rparr>"
  have f1: "janus ?m1 = ''event'' \<and> plugindata_data ?m1 = Some ?d \<and>
     matching_resolver ?m1 (transport ?s) = None"
    by (simp add: matching_resolver_def)
  have f2: "janus ?m2 = ''hangup'' \<and> matching_resolver ?m2 (transport ?s) = None"
    by (simp add: matching_resolver_def)
  from inbound_hangup_invokes_callback_once
    [OF cb ev kind, of None ?m1 "\<lambda>c. True" ?m2 "''Kq3xZ81mPw0a''" NoReply True]
  show ?thesis using f1 f2 by blast
qed

lemma await_sendMessage_keeps [simp]:
  "media (fst (await_sendMessage msg txn answer u)) = media u"
  "storage (fst (await_sendMessage msg txn answer u)) = storage u"
  "connection (fst (await_sendMessage msg txn answer u)) = connection u"
  by (simp_all add: await_sendMessage_def Let_def split: gateway_answer.splits)













section \<open>Properties of the channel\<close>

lemma sendRawMessage_not_open:
  "\<not> channel_open ch \<Longrightarrow> sendRawMessage m ch = (ch, False)"
  by (auto simp add: sendRawMessage_def channel_open_def split: option.splits)

lemma sendRawMessage_open:
  assumes "channel_wsRef ch = Some ws" "channel_readyState ws = OPEN" "send_raises ws = None"
  shows "sendRawMessage m ch =
           (ch\<lparr>channel_wsRef := Some (ws\<lparr>channel_sent := channel_sent ws @ [m]\<rparr>)\<rparr>, True)"
  using assms by (simp add: sendRawMessage_def)

lemma sendRawMessage_cases:
  obtains (unsent) "snd (sendRawMessage m ch) = False"
      "channel_outbox (fst (sendRawMessage m ch)) = channel_outbox ch"
      "textChatEnabled (fst (sendRawMessage m ch)) = textChatEnabled ch"
  | (sent) "snd (sendRawMessage m ch) = True"
      "channel_outbox (fst (sendRawMessage m ch)) = channel_outbox ch @ [m]"
      "textChatEnabled (fst (sendRawMessage m ch)) = textChatEnabled ch"
      "channel_open ch"
proof (cases "channel_wsRef ch")
  case None
  then have "sendRawMessage m ch = (ch, False)" by (simp add: sendRawMessage_def)
  then show ?thesis using unsent by simp
next
  case (Some ws)
  show ?thesis
  proof (cases "channel_readyState ws = OPEN")
    case False
    then have "sendRawMessage m ch = (ch, False)" using Some by (simp add: sendRawMessage_def)
    then show ?thesis using unsent by simp
  next
    case True
    show ?thesis
    proof (cases "send_raises ws")
      case None
      have "sendRawMessage m ch =
           (ch\<lparr>channel_wsRef := Some (ws\<lparr>channel_sent := channel_sent ws @ [m]\<rparr>)\<rparr>, True)"
        using Some True None by (rule sendRawMessage_open)
      moreover have "channel_open ch" using Some True by (simp add: channel_open_def)
      ultimately show ?thesis using sent Some by (simp add: channel_outbox_def)
    next
      case (Some e)
      then have "sendRawMessage m ch = (handleError e ch, False)"
        using \<open>channel_wsRef ch = Some ws\<close> True by (simp add: sendRawMessage_def)
      then show ?thesis using unsent by (simp add: handleError_def channel_outbox_def)
    qed
  qed
qed




lemma is_final_ack [simp]:
  "is_final_result_for aid (createActionAckMessage stamp cid a st) = False"
  by (simp add: is_final_result_for_def createActionAckMessage_def createBaseMessage_def)

lemma is_final_async [simp]:
  "is_final_result_for aid (createAsyncActionResultMessage stamp cid a ok dat err dur) = (a = aid)"
  by (auto simp add: is_final_result_for_def createAsyncActionResultMessage_def
      createBaseMessage_def)

lemma sendRawMessage_accepts: "snd (sendRawMessage m ch) = channel_accepts ch"
  by (simp add: sendRawMessage_def channel_accepts_def split: option.splits)

lemma sendRawMessage_outbox:
  "channel_outbox (fst (sendRawMessage m ch)) =
     (if channel_accepts ch then channel_outbox ch @ [m] else channel_outbox ch)"
  by (simp add: sendRawMessage_def channel_accepts_def channel_outbox_def handleError_def
      split: option.splits)

lemma channel_bookkeeping [simp]:
  "channel_outbox (ch\<lparr>lastMessageIdRef := i, callbacks := c\<rparr>) = channel_outbox ch"
  "channel_accepts (ch\<lparr>lastMessageIdRef := i, callbacks := c\<rparr>) = channel_accepts ch"
  by (simp_all add: channel_outbox_def channel_accepts_def)

lemma handle_action_async:
  assumes "onAction a = AsyncAck remark"
  shows "channel_outbox (handle_action opts onAction stamp elapsed a ch) =
           (if requiresResponse a \<and> truthy (opt_callId opts) \<and> channel_accepts ch
            then channel_outbox ch @
                   [createActionAckMessage stamp (or_else (opt_callId opts) []) (actionId a) ''received'']
            else channel_outbox ch)"
proof (cases "opt_callId opts")
  case None
  then show ?thesis using assms by (simp add: handle_action_def truthy_def)
next
  case (Some cid)
  show ?thesis
  proof (cases "requiresResponse a \<and> cid \<noteq> []")
    case False
    then show ?thesis using assms Some by (auto simp add: handle_action_def truthy_def)
  next
    case True
    then have h: "handle_action opts onAction stamp elapsed a ch =
        fst (sendRawMessage (createActionAckMessage stamp cid (actionId a) ''received'') ch)"
      using assms Some by (simp add: handle_action_def)
    have o: "or_else (opt_callId opts) [] = cid" using Some True by (simp add: or_else_def)
    have t: "truthy (opt_callId opts)" using Some True by (simp add: truthy_def)
    show ?thesis
      unfolding h o using True t by (simp add: sendRawMessage_outbox)
  qed
qed

lemma channel_handleMessage_action:
  assumes "message_type msg = MAction" "action msg = Some a"
  shows "channel_outbox (channel_handleMessage opts (Some onAction) stamp elapsed (Some msg) ch) =
         (if mountedRef ch
          then channel_outbox (handle_action opts onAction stamp elapsed a
                 (ch\<lparr>lastMessageIdRef := Some (messageId msg),
                     callbacks := callbacks ch @ [OnMessage msg]\<rparr>))
          else channel_outbox ch)"
  using assms by (simp add: channel_handleMessage_def Let_def)

lemma channel_handleMessage_async:
  assumes "message_type msg = MAction" "action msg = Some a" "onAction a = AsyncAck remark"
  shows "channel_outbox (channel_handleMessage opts (Some onAction) stamp elapsed (Some msg) ch) =
         (if mountedRef ch \<and> requiresResponse a \<and> truthy (opt_callId opts) \<and> channel_accepts ch
          then channel_outbox ch @
                 [createActionAckMessage stamp (or_else (opt_callId opts) []) (actionId a) ''received'']
          else channel_outbox ch)"
  using assms(3)
  by (simp add: channel_handleMessage_action [OF assms(1,2)] handle_action_async)

lemma sendAsyncActionResult_exact:
  "snd (sendAsyncActionResult opts stamp aid ok dat err dur ch) =
     (truthy (opt_callId opts) \<and> channel_accepts ch)"
  "channel_outbox (fst (sendAsyncActionResult opts stamp aid ok dat err dur ch)) =
     (if truthy (opt_callId opts) \<and> channel_accepts ch
      then channel_outbox ch @
             [createAsyncActionResultMessage stamp (or_else (opt_callId opts) []) aid ok dat err dur]
      else channel_outbox ch)"
  by (simp_all add: sendAsyncActionResult_def sendRawMessage_accepts sendRawMessage_outbox)

text \<open>
  C5 as stated fails in its last part: nothing in the hook counts the final results
  of an action. Here an action \<open>a1\<close> that requires a response arrives on an open
  socket and the handler acknowledges it as asynchronous; then
  \<open>sendAsyncActionResult\<close> is called twice for \<open>a1\<close>. Two final results for \<open>a1\<close>
  are written to the socket.
\<close>

theorem two_final_results_counterexample:
  "length (filter (is_final_result_for ''a1'')
     (channel_outbox (fst (sendAsyncActionResult
        \<lparr>opt_callId = Some ''c1'', opt_wsToken = Some ''tok'', opt_autoReconnect = None,
         opt_reconnectDelay = None\<rparr> (''m3'', 3) ''a1'' True None None None
        (fst (sendAsyncActionResult
           \<lparr>opt_callId = Some ''c1'', opt_wsToken = Some ''tok'', opt_autoReconnect = None,
            opt_reconnectDelay = None\<rparr> (''m2'', 2) ''a1'' True None None None
           (channel_handleMessage
              \<lparr>opt_callId = Some ''c1'', opt_wsToken = Some ''tok'', opt_autoReconnect = None,
               opt_reconnectDelay = None\<rparr>
              (Some (\<lambda>a. AsyncAck None)) (''m1'', 1) 0
              (Some ((createBaseMessage (''m0'', 0) MAction ''c1'' To_browser)
                 \<lparr>action := Some \<lparr>actionId = ''a1'', action_name = ''navigate'',
                    requiresResponse = True\<rparr>\<rparr>))
              (initial_channel\<lparr>connectionState := Connected,
                 channel_wsRef := Some \<lparr>channel_readyState = OPEN, channel_sent = [],
                    send_raises = None\<rparr>\<rparr>)))))))) = 2"
proof -
  let ?opts = "\<lparr>opt_callId = Some ''c1'', opt_wsToken = Some ''tok'', opt_autoReconnect = None,
       opt_reconnectDelay = None\<rparr>"
  let ?a = "\<lparr>actionId = ''a1'', action_name = ''navigate'', requiresResponse = True\<rparr>"
  let ?msg = "(createBaseMessage (''m0'', 0) MAction ''c1'' To_browser)\<lparr>action := Some ?a\<rparr>"
  let ?ch = "initial_channel\<lparr>connectionState := Connected,
       channel_wsRef := Some \<lparr>channel_readyState = OPEN, channel_sent = [], send_raises = None\<rparr>\<rparr>"
  let ?ack = "createActionAckMessage (''m1'', 1) ''c1'' ''a1'' ''received''"
  have ch1: "channel_handleMessage ?opts (Some (\<lambda>a. AsyncAck None)) (''m1'', 1) 0 (Some ?msg) ?ch =
      initial_channel\<lparr>connectionState := Connected,
        lastMessageIdRef := Some ''m0'', callbacks := [OnMessage ?msg],
        channel_wsRef := Some \<lparr>channel_readyState = OPEN, channel_sent = [?ack],
          send_raises = None\<rparr>\<rparr>"
    by (simp add: channel_handleMessage_def handle_action_def sendRawMessage_def
        createBaseMessage_def initial_channel_def Let_def)
  show ?thesis
    unfolding ch1
    by (simp add: sendAsyncActionResult_def sendRawMessage_def truthy_def or_else_def
        channel_outbox_def is_final_result_for_def createAsyncActionResultMessage_def
        createActionAckMessage_def createBaseMessage_def)
qed

text \<open>
  C5, amended in its last part. For a message of type \<open>action\<close> whose handler returns
  the asynchronous acknowledgement, \<open>handleMessage\<close> sends nothing but the
  acknowledgement with status \<open>received\<close> and \<open>isFinal\<close> false (it sends it when
  the hook is mounted, a response is required, the call id is there and the socket
  is open and accepts the send, and sends nothing otherwise), and the final results
  on the socket are those that were there. A final result is sent by
  \<open>sendAsyncActionResult\<close>: each call, with the call id there and the socket open
  and accepting the send, sends one message, a final result for the action with
  status \<open>completed\<close> or \<open>failed\<close>; any other call sends nothing. So the final
  results for an action are as many as these calls, which the hook does not limit.
\<close>

theorem async_action_ack_then_explicit_result:
  "(message_type msg = MAction \<and> action msg = Some a \<and> onAction a = AsyncAck remark \<longrightarrow>
      channel_outbox (channel_handleMessage opts (Some onAction) stamp elapsed (Some msg) ch) =
        (if mountedRef ch \<and> requiresResponse a \<and> truthy (opt_callId opts) \<and> channel_accepts ch
         then channel_outbox ch @
                [createActionAckMessage stamp (or_else (opt_callId opts) []) (actionId a) ''received'']
         else channel_outbox ch) \<and>
      filter (is_final_result_for aid)
        (channel_outbox (channel_handleMessage opts (Some onAction) stamp elapsed (Some msg) ch)) =
      filter (is_final_result_for aid) (channel_outbox ch)) \<and>
   map_option isFinal (actionResult (createActionAckMessage stamp cid aid ''received'')) =
     Some (Some False) \<and>
   map_option result_status (actionResult (createActionAckMessage stamp cid aid ''received'')) =
     Some (Some ''received'') \<and>
   snd (sendAsyncActionResult opts stamp aid ok dat err dur ch2) =
     (truthy (opt_callId opts) \<and> channel_accepts ch2) \<and>
   channel_outbox (fst (sendAsyncActionResult opts stamp aid ok dat err dur ch2)) =
     (if truthy (opt_callId opts) \<and> channel_accepts ch2
      then channel_outbox ch2 @
             [createAsyncActionResultMessage stamp (or_else (opt_callId opts) []) aid ok dat err dur]
      else channel_outbox ch2) \<and>
   length (filter (is_final_result_for aid)
     (channel_outbox (fst (sendAsyncActionResult opts stamp aid ok dat err dur ch2)))) =
     length (filter (is_final_result_for aid) (channel_outbox ch2)) +
       (if truthy (opt_callId opts) \<and> channel_accepts ch2 then 1 else 0) \<and>
   is_final_result_for aid (createAsyncActionResultMessage stamp cid aid ok dat err dur) \<and>
   map_option result_status
     (actionResult (createAsyncActionResultMessage stamp cid aid ok dat err dur)) =
     Some (Some (if ok then ''completed'' else ''failed''))"
proof -
  {
    assume h: "message_type msg = MAction \<and> action msg = Some a \<and> onAction a = AsyncAck remark"
    then have out: "channel_outbox (channel_handleMessage opts (Some onAction) stamp elapsed (Some msg) ch) =
        (if mountedRef ch \<and> requiresResponse a \<and> truthy (opt_callId opts) \<and> channel_accepts ch
         then channel_outbox ch @
                [createActionAckMessage stamp (or_else (opt_callId opts) []) (actionId a) ''received'']
         else channel_outbox ch)"
      using channel_handleMessage_async [of msg a onAction remark opts stamp elapsed ch] by blast
    have fin: "filter (is_final_result_for aid)
        (channel_outbox (channel_handleMessage opts (Some onAction) stamp elapsed (Some msg) ch)) =
      filter (is_final_result_for aid) (channel_outbox ch)"
      unfolding out by simp
    note out fin
  }
  note part1 = this
  have part2: "map_option isFinal (actionResult (createActionAckMessage stamp cid aid ''received'')) =
     Some (Some False)"
    "map_option result_status (actionResult (createActionAckMessage stamp cid aid ''received'')) =
     Some (Some ''received'')"
    by (simp_all add: createActionAckMessage_def createBaseMessage_def)
  note part3 = sendAsyncActionResult_exact [of opts stamp aid ok dat err dur ch2]
  have part3c: "length (filter (is_final_result_for aid)
     (channel_outbox (fst (sendAsyncActionResult opts stamp aid ok dat err dur ch2)))) =
     length (filter (is_final_result_for aid) (channel_outbox ch2)) +
       (if truthy (opt_callId opts) \<and> channel_accepts ch2 then 1 else 0)"
    unfolding part3(2) by simp
  have part4: "is_final_result_for aid (createAsyncActionResultMessage stamp cid aid ok dat err dur)"
    by simp
  have part5: "map_option result_status
     (actionResult (createAsyncActionResultMessage stamp cid aid ok dat err dur)) =
     Some (Some (if ok then ''completed'' else ''failed''))"
    by (simp add: createAsyncActionResultMessage_def createBaseMessage_def)
  show ?thesis
    using part1 part2 part3 part3c part4 part5 by blast
qed

text \<open>
  An instance of the amended C5: an action \<open>a1\<close> that requires a response arrives on
  an open socket and the handler acknowledges it as asynchronous. The socket holds
  the acknowledgement alone; after one \<open>sendAsyncActionResult\<close> it holds the
  acknowledgement and one final result. On an unmounted hook the same action sends
  nothing.
\<close>

theorem async_action_ack_then_explicit_result_witness:
  "channel_outbox (channel_handleMessage
      \<lparr>opt_callId = Some ''c1'', opt_wsToken = Some ''tok'', opt_autoReconnect = None,
       opt_reconnectDelay = None\<rparr>
      (Some (\<lambda>a. AsyncAck None)) (''m1'', 1) 0
      (Some ((createBaseMessage (''m0'', 0) MAction ''c1'' To_browser)
         \<lparr>action := Some \<lparr>actionId = ''a1'', action_name = ''navigate'', requiresResponse = True\<rparr>\<rparr>))
      (initial_channel\<lparr>connectionState := Connected,
         channel_wsRef := Some \<lparr>channel_readyState = OPEN, channel_sent = [],
            send_raises = None\<rparr>\<rparr>)) =
     [createActionAckMessage (''m1'', 1) ''c1'' ''a1'' ''received''] \<and>
   channel_outbox (fst (sendAsyncActionResult
      \<lparr>opt_callId = Some ''c1'', opt_wsToken = Some ''tok'', opt_autoReconnect = None,
       opt_reconnectDelay = None\<rparr> (''m2'', 2) ''a1'' True None None None
      (initial_channel\<lparr>connectionState := Connected,
         channel_wsRef := Some \<lparr>channel_readyState = OPEN,
            channel_sent = [createActionAckMessage (''m1'', 1) ''c1'' ''a1'' ''received''],
            send_raises = None\<rparr>\<rparr>))) =
     [createActionAckMessage (''m1'', 1) ''c1'' ''a1'' ''received'',
      createAsyncActionResultMessage (''m2'', 2) ''c1'' ''a1'' True None None None] \<and>
   channel_outbox (channel_handleMessage
      \<lparr>opt_callId = Some ''c1'', opt_wsToken = Some ''tok'', opt_autoReconnect = None,
       opt_reconnectDelay = None\<rparr>
      (Some (\<lambda>a. AsyncAck None)) (''m1'', 1) 0
      (Some ((createBaseMessage (''m0'', 0) MAction ''c1'' To_browser)
         \<lparr>action := Some \<lparr>actionId = ''a1'', action_name = ''navigate'', requiresResponse = True\<rparr>\<rparr>))
      (initial_channel\<lparr>connectionState := Connected, mountedRef := False,
         channel_wsRef := Some \<lparr>channel_readyState = OPEN, channel_sent = [],
            send_raises = None\<rparr>\<rparr>)) = []"
proof -
  let ?opts = "\<lparr>opt_callId = Some ''c1'', opt_wsToken = Some ''tok'', opt_autoReconnect = None,
       opt_reconnectDelay = None\<rparr>"
  let ?a = "\<lparr>actionId = ''a1'', action_name = ''navigate'', requiresResponse = True\<rparr>"
  let ?msg = "(createBaseMessage (''m0'', 0) MAction ''c1'' To_browser)\<lparr>action := Some ?a\<rparr>"
  let ?ws = "\<lparr>channel_readyState = OPEN, channel_sent = [], send_raises = None\<rparr>"
  let ?ch = "initial_channel\<lparr>connectionState := Connected, channel_wsRef := Some ?ws\<rparr>"
  let ?chu = "initial_channel\<lparr>connectionState := Connected, mountedRef := False,
       channel_wsRef := Some ?ws\<rparr>"
  let ?ws2 = "\<lparr>channel_readyState = OPEN,
            channel_sent = [createActionAckMessage (''m1'', 1) ''c1'' ''a1'' ''received''],
            send_raises = None\<rparr>"
  let ?ch2 = "initial_channel\<lparr>connectionState := Connected, channel_wsRef := Some ?ws2\<rparr>"
  have h1: "message_type ?msg = MAction \<and> action ?msg = Some ?a \<and>
      (\<lambda>a. AsyncAck None) ?a = AsyncAck None"
    by (simp add: createBaseMessage_def)
  have c1: "mountedRef ?ch \<and> requiresResponse ?a \<and> truthy (opt_callId ?opts) \<and> channel_accepts ?ch"
    by (simp add: truthy_def channel_accepts_def initial_channel_def)
  have c2: "truthy (opt_callId ?opts) \<and> channel_accepts ?ch2"
    by (simp add: truthy_def channel_accepts_def)
  have c3: "\<not> mountedRef ?chu" by simp
  have o1: "channel_outbox ?ch = []" "channel_outbox ?chu = []"
    by (simp_all add: channel_outbox_def)
  have o2: "channel_outbox ?ch2 = [createActionAckMessage (''m1'', 1) ''c1'' ''a1'' ''received'']"
    by (simp add: channel_outbox_def)
  have oe: "or_else (opt_callId ?opts) [] = ''c1''" by (simp add: or_else_def)
  have ai: "actionId ?a = ''a1''" by simp
  note t1 = async_action_ack_then_explicit_result
    [of ?msg ?a "\<lambda>a. AsyncAck None" None ?opts "(''m1'', 1)" 0 ?ch "''a1''" "''c1''" True None None
        None ?ch2]
  note t2 = async_action_ack_then_explicit_result
    [of ?msg ?a "\<lambda>a. AsyncAck None" None ?opts "(''m2'', 2)" 0 ?ch "''a1''" "''c1''" True None None
        None ?ch2]
  note t3 = async_action_ack_then_explicit_result
    [of ?msg ?a "\<lambda>a. AsyncAck None" None ?opts "(''m1'', 1)" 0 ?chu "''a1''" "''c1''" True None None
        None ?ch2]
  have a: "channel_outbox (channel_handleMessage ?opts (Some (\<lambda>a. AsyncAck None)) (''m1'', 1) 0
             (Some ?msg) ?ch) =
           channel_outbox ?ch @
             [createActionAckMessage (''m1'', 1) (or_else (opt_callId ?opts) []) (actionId ?a) ''received'']"
    using t1 h1 c1 by presburger
  have b: "channel_outbox (fst (sendAsyncActionResult ?opts (''m2'', 2) ''a1'' True None None None ?ch2)) =
        channel_outbox ?ch2 @
          [createAsyncActionResultMessage (''m2'', 2) (or_else (opt_callId ?opts) []) ''a1'' True
             None None None]"
    using t2 c2 by presburger
  have c: "channel_outbox (channel_handleMessage ?opts (Some (\<lambda>a. AsyncAck None)) (''m1'', 1) 0
             (Some ?msg) ?chu) = channel_outbox ?chu"
    using t3 h1 c3 by presburger
  show ?thesis
    using a b c unfolding o1 o2 oe ai by simp
qed

text \<open>
  C10. \<open>enableTextChat\<close> and \<open>disableTextChat\<close> return false and leave the whole
  state of the hook as it was when the call id is absent or the channel socket is
  not open. Whenever they return false the flag \<open>textChatEnabled\<close> and the messages
  written to the socket are those before the call; when they return true the control
  message was written to the socket and the flag is true, respectively false.
\<close>

theorem text_chat_flag_follows_transmission:
  "(\<not> truthy (opt_callId opts) \<or> \<not> channel_open ch \<longrightarrow>
      enableTextChat opts stamp mode ch = (ch, False) \<and>
      disableTextChat opts stamp ch = (ch, False)) \<and>
   (\<not> snd (enableTextChat opts stamp mode ch) \<longrightarrow>
      textChatEnabled (fst (enableTextChat opts stamp mode ch)) = textChatEnabled ch \<and>
      channel_outbox (fst (enableTextChat opts stamp mode ch)) = channel_outbox ch) \<and>
   (\<not> snd (disableTextChat opts stamp ch) \<longrightarrow>
      textChatEnabled (fst (disableTextChat opts stamp ch)) = textChatEnabled ch \<and>
      channel_outbox (fst (disableTextChat opts stamp ch)) = channel_outbox ch) \<and>
   (snd (enableTextChat opts stamp mode ch) \<longrightarrow>
      textChatEnabled (fst (enableTextChat opts stamp mode ch)) = True \<and>
      channel_outbox (fst (enableTextChat opts stamp mode ch)) =
        channel_outbox ch @
          [createEnableTextChatMessage stamp (or_else (opt_callId opts) []) mode]) \<and>
   (snd (disableTextChat opts stamp ch) \<longrightarrow>
      textChatEnabled (fst (disableTextChat opts stamp ch)) = False \<and>
      channel_outbox (fst (disableTextChat opts stamp ch)) =
        channel_outbox ch @ [createDisableTextChatMessage stamp (or_else (opt_callId opts) [])])"
proof -
  let ?en = "createEnableTextChatMessage stamp (or_else (opt_callId opts) []) mode"
  let ?dis = "createDisableTextChatMessage stamp (or_else (opt_callId opts) [])"
  have closed: "\<not> truthy (opt_callId opts) \<or> \<not> channel_open ch \<longrightarrow>
      enableTextChat opts stamp mode ch = (ch, False) \<and>
      disableTextChat opts stamp ch = (ch, False)"
    by (auto simp add: enableTextChat_def disableTextChat_def sendRawMessage_not_open)
  have outbox_flag [simp]: "channel_outbox (c\<lparr>textChatEnabled := b\<rparr>) = channel_outbox c" for c b
    by (simp add: channel_outbox_def)
  have en: "(\<not> snd (enableTextChat opts stamp mode ch) \<longrightarrow>
      textChatEnabled (fst (enableTextChat opts stamp mode ch)) = textChatEnabled ch \<and>
      channel_outbox (fst (enableTextChat opts stamp mode ch)) = channel_outbox ch) \<and>
    (snd (enableTextChat opts stamp mode ch) \<longrightarrow>
      textChatEnabled (fst (enableTextChat opts stamp mode ch)) = True \<and>
      channel_outbox (fst (enableTextChat opts stamp mode ch)) = channel_outbox ch @ [?en])"
  proof (cases "truthy (opt_callId opts)")
    case False
    then show ?thesis by (simp add: enableTextChat_def)
  next
    case True
    then show ?thesis
      by (cases rule: sendRawMessage_cases [of ?en ch])
         (simp_all add: enableTextChat_def Let_def)
  qed
  have dis: "(\<not> snd (disableTextChat opts stamp ch) \<longrightarrow>
      textChatEnabled (fst (disableTextChat opts stamp ch)) = textChatEnabled ch \<and>
      channel_outbox (fst (disableTextChat opts stamp ch)) = channel_outbox ch) \<and>
    (snd (disableTextChat opts stamp ch) \<longrightarrow>
      textChatEnabled (fst (disableTextChat opts stamp ch)) = False \<and>
      channel_outbox (fst (disableTextChat opts stamp ch)) = channel_outbox ch @ [?dis])"
  proof (cases "truthy (opt_callId opts)")
    case False
    then show ?thesis by (simp add: disableTextChat_def)
  next
    case True
    then show ?thesis
      by (cases rule: sendRawMessage_cases [of ?dis ch])
         (simp_all add: disableTextChat_def Let_def)
  qed
  show ?thesis using closed en dis by blast
qed

text \<open>
  Instances of C10: text chat is on and the socket is closing, and
  \<open>disableTextChat\<close> returns false and changes nothing; the call id is absent on an
  open socket, and \<open>enableTextChat\<close> returns false and changes nothing.
\<close>

theorem text_chat_flag_follows_transmission_witness:
  "disableTextChat
     \<lparr>opt_callId = Some ''c1'', opt_wsToken = Some ''tok'', opt_autoReconnect = None,
      opt_reconnectDelay = None\<rparr> (''m1'', 1)
     (initial_channel\<lparr>textChatEnabled := True,
        channel_wsRef := Some \<lparr>channel_readyState = CLOSING, channel_sent = [],
           send_raises = None\<rparr>\<rparr>) =
     (initial_channel\<lparr>textChatEnabled := True,
        channel_wsRef := Some \<lparr>channel_readyState = CLOSING, channel_sent = [],
           send_raises = None\<rparr>\<rparr>, False) \<and>
   enableTextChat
     \<lparr>opt_callId = None, opt_wsToken = Some ''tok'', opt_autoReconnect = None,
      opt_reconnectDelay = None\<rparr> (''m1'', 1) ''text''
     (initial_channel\<lparr>channel_wsRef := Some \<lparr>channel_readyState = OPEN, channel_sent = [],
           send_raises = None\<rparr>\<rparr>) =
     (initial_channel\<lparr>channel_wsRef := Some \<lparr>channel_readyState = OPEN, channel_sent = [],
           send_raises = None\<rparr>\<rparr>, False) \<and>
   textChatEnabled (fst (enableTextChat
     \<lparr>opt_callId = Some ''c1'', opt_wsToken = Some ''tok'', opt_autoReconnect = None,
      opt_reconnectDelay = None\<rparr> (''m1'', 1) ''text''
     (initial_channel\<lparr>channel_wsRef := Some \<lparr>channel_readyState = OPEN, channel_sent = [],
           send_raises = None\<rparr>\<rparr>))) = True"
proof -
  let ?o1 = "\<lparr>opt_callId = Some ''c1'', opt_wsToken = Some ''tok'', opt_autoReconnect = None,
      opt_reconnectDelay = None\<rparr>"
  let ?c1 = "initial_channel\<lparr>textChatEnabled := True,
        channel_wsRef := Some \<lparr>channel_readyState = CLOSING, channel_sent = [],
           send_raises = None\<rparr>\<rparr>"
  let ?o2 = "\<lparr>opt_callId = None, opt_wsToken = Some ''tok'', opt_autoReconnect = None,
      opt_reconnectDelay = None\<rparr>"
  let ?c2 = "initial_channel\<lparr>channel_wsRef := Some \<lparr>channel_readyState = OPEN, channel_sent = [],
           send_raises = None\<rparr>\<rparr>"
  have h1: "\<not> truthy (opt_callId ?o1) \<or> \<not> channel_open ?c1"
    by (simp add: channel_open_def)
  have h2: "\<not> truthy (opt_callId ?o2) \<or> \<not> channel_open ?c2"
    by (simp add: truthy_def)
  have h3: "snd (enableTextChat ?o1 (''m1'', 1) ''text'' ?c2)"
    by (simp add: enableTextChat_def sendRawMessage_def truthy_def Let_def)
  from text_chat_flag_follows_transmission [of ?o1 ?c1 "(''m1'', 1)" "''text''"]
       text_chat_flag_follows_transmission [of ?o2 ?c2 "(''m1'', 1)" "''text''"]
       text_chat_flag_follows_transmission [of ?o1 ?c2 "(''m1'', 1)" "''text''"]
  show ?thesis using h1 h2 h3 by blast
qed

end
